theory Spec2Isabelle
  imports Complex_Main "HOL-Library.Word" "HOL-Library.Multiset"
begin

section \<open>The abstract-to-title notebook\<close>

text \<open>
  The repository is one notebook, \<^verbatim>\<open>abstract-to-title-summarizer.ipynb\<close>, whose code cells
  run top to bottom. Each cell is embedded as a function. What a cell computes itself
  (the reading loop, the prefix, \<^verbatim>\<open>preprocess_function\<close>, \<^verbatim>\<open>metric_fn\<close>) is written out;
  what it asks of a library (json, pandas, datasets, transformers, keras) is either written
  out from the library's documented behaviour where a property below depends on it
  (pandas' frame operations, numpy's \<^verbatim>\<open>clip\<close> and \<^verbatim>\<open>where\<close>) or taken as a parameter (the
  imports, the JSON decoder, the split, \<^verbatim>\<open>from_pretrained\<close>, the shuffle, the ROUGE-L
  metric). The library calls that read or write files or the environment, the imports
  and \<^verbatim>\<open>from_pretrained\<close>, are parameters that take the world and return it.
\<close>

subsection \<open>Exceptions\<close>

datatype error =
    FileNotFoundError
  | ValueError
  | JSONDecodeError
  | FrameError
  | KeyError
  | TypeError
  | IndexError
  | ImportError

subsection \<open>Decoded JSON\<close>

text \<open>
  What \<^verbatim>\<open>json.loads\<close> returns: \<^verbatim>\<open>None\<close>, a bool, an int, a float (python's decoder also
  accepts the literals \<^verbatim>\<open>NaN\<close> and \<^verbatim>\<open>Infinity\<close>), a str, a list or a dict. A dict is an
  association list in insertion order; python dicts have no repeated key.
\<close>

datatype json =
    JNull
  | JBool bool
  | JInt int
  | JFloat real
  | JNaN
  | JInfinity bool
  | JStr string
  | JArr "json list"
  | JObj "(string \<times> json) list"

text \<open>
  \<^verbatim>\<open>json.loads\<close> is a parameter of the model: a function from a line to the decoded value,
  \<open>None\<close> where the library raises \<^verbatim>\<open>JSONDecodeError\<close>.
\<close>

type_synonym decoder = "string \<Rightarrow> json option"

subsection \<open>Blank lines\<close>

text \<open>
  \<^verbatim>\<open>str.strip()\<close> removes leading and trailing whitespace. A \<open>char\<close> stands for a code
  point below 256; among those python's \<^verbatim>\<open>str.isspace\<close> holds of U+0009..U+000D,
  U+001C..U+001F, U+0020, U+0085 and U+00A0.
\<close>

definition isspace :: "char \<Rightarrow> bool" where
  "isspace c =
     (let n = (of_char c :: nat)
      in (9 \<le> n \<and> n \<le> 13) \<or> (28 \<le> n \<and> n \<le> 31) \<or> n = 32 \<or> n = 133 \<or> n = 160)"

definition strip :: "string \<Rightarrow> string" where
  "strip s = rev (dropWhile isspace (rev (dropWhile isspace s)))"

subsection \<open>The file system and the process environment\<close>

text \<open>
  A text file is the list of its lines, as iterating over the open file yields them
  (each with its newline). The environment maps variable names to values. The level of
  TensorFlow's logger is the third piece of state the notebook's own statements touch.
\<close>

record world =
  fs :: "string \<rightharpoonup> string list"
  env :: "string \<rightharpoonup> string"
  tf_log_level :: nat

text \<open>
  A call that may read and change the world and may raise: it returns its result or the
  exception, with the world as it left it.
\<close>

type_synonym 'a io = "world \<Rightarrow> (error + 'a) \<times> world"

text \<open>
  \<^verbatim>\<open>open(path, mode)\<close> for the text modes: \<^verbatim>\<open>r\<close> reads an existing file and raises
  \<^verbatim>\<open>FileNotFoundError\<close> otherwise; \<^verbatim>\<open>w\<close> creates or truncates the file; \<^verbatim>\<open>a\<close> creates it
  when missing. The result is the lines the handle will yield and the file system after
  the call. Any other mode string is a \<^verbatim>\<open>ValueError\<close> here.
\<close>

definition py_open :: "world \<Rightarrow> string \<Rightarrow> string \<Rightarrow> error + (string list \<times> world)" where
  "py_open w path mode =
     (if mode = ''r'' then
        (case fs w path of
           None \<Rightarrow> Inl FileNotFoundError
         | Some ls \<Rightarrow> Inr (ls, w))
      else if mode = ''w'' then Inr ([], w\<lparr>fs := (fs w)(path \<mapsto> [])\<rparr>)
      else if mode = ''a'' then
        (case fs w path of
           None \<Rightarrow> Inr ([], w\<lparr>fs := (fs w)(path \<mapsto> [])\<rparr>)
         | Some ls \<Rightarrow> Inr ([], w))
      else Inl ValueError)"

subsection \<open>Cell f8a3484e: reading the snapshot\<close>

definition N :: nat where
  "N = 200000"

definition snapshot_path :: string where
  "snapshot_path = ''arxiv-metadata-oai-snapshot.json''"

text \<open>
  The loop \<^verbatim>\<open>for i, line in enumerate(f)\<close>: \<open>i\<close> is the index of the line, \<open>records\<close>
  the list built so far. The index test comes first, then the blank-line test, then the
  decoding, whose exception nothing catches.
\<close>

fun read_loop :: "decoder \<Rightarrow> nat \<Rightarrow> string list \<Rightarrow> json list \<Rightarrow> error + json list" where
  "read_loop loads i [] records = Inr records"
| "read_loop loads i (line # rest) records =
     (if i \<ge> N then Inr records
      else if strip line = [] then read_loop loads (Suc i) rest records
      else (case loads line of
              None \<Rightarrow> Inl JSONDecodeError
            | Some r \<Rightarrow> read_loop loads (Suc i) rest (records @ [r])))"

subsection \<open>The pandas operations of the cell\<close>

record dataframe =
  columns :: "string list"
  index :: "nat list"
  rows :: "json list list"

fun is_obj :: "json \<Rightarrow> bool" where
  "is_obj (JObj kvs) = True"
| "is_obj _ = False"

fun items :: "json \<Rightarrow> (string \<times> json) list" where
  "items (JObj kvs) = kvs"
| "items _ = []"

definition keys :: "json \<Rightarrow> string list" where
  "keys r = map fst (items r)"

text \<open>A cell of a frame built from dicts: the value under the key, NaN where it is absent.\<close>

definition cell :: "json \<Rightarrow> string \<Rightarrow> json" where
  "cell r c = (case map_of (items r) c of None \<Rightarrow> JNaN | Some v \<Rightarrow> v)"

text \<open>
  \<^verbatim>\<open>pd.DataFrame(records)\<close> on a list of dicts: the columns are the keys in order of first
  appearance, the index is \<open>0..n-1\<close>, a key a record lacks is NaN in its row. A cell
  holds the decoded value: pandas' choice of a column type, which stores the integers of
  a numeric column with a missing entry as floats, is not part of the model; it changes
  neither a string nor whether a cell is missing. On a list
  that holds anything but dicts pandas either raises while it builds the frame or builds
  one whose columns are numbers, on which the selection of the three named columns
  raises; the model reports both as \<open>FrameError\<close>.
\<close>

definition DataFrame :: "json list \<Rightarrow> error + dataframe" where
  "DataFrame records =
     (if list_all is_obj records
      then (let cols = rev (remdups (rev (concat (map keys records))))
            in Inr \<lparr>columns = cols, index = [0..<length records],
                    rows = map (\<lambda>r. map (cell r) cols) records\<rparr>)
      else Inl FrameError)"

text \<open>\<^verbatim>\<open>df.loc[:, cols]\<close>: every label must be a column, else \<^verbatim>\<open>KeyError\<close>.\<close>

definition column_pos :: "string list \<Rightarrow> string \<Rightarrow> nat" where
  "column_pos cols c = length (takeWhile (\<lambda>x. x \<noteq> c) cols)"

definition loc_columns :: "dataframe \<Rightarrow> string list \<Rightarrow> error + dataframe" where
  "loc_columns df cols =
     (if list_all (\<lambda>c. c \<in> set (columns df)) cols
      then Inr \<lparr>columns = cols, index = index df,
               rows = map (\<lambda>row. map (\<lambda>c. row ! column_pos (columns df) c) cols) (rows df)\<rparr>
      else Inl KeyError)"

text \<open>\<^verbatim>\<open>df.dropna()\<close>: a row goes when one of its cells is \<^verbatim>\<open>None\<close> or NaN; labels stay.\<close>

fun isna :: "json \<Rightarrow> bool" where
  "isna JNull = True"
| "isna JNaN = True"
| "isna _ = False"

definition dropna :: "dataframe \<Rightarrow> dataframe" where
  "dropna df =
     (let kept = filter (\<lambda>(i, row). \<not> list_ex isna row) (zip (index df) (rows df))
      in \<lparr>columns = columns df, index = map fst kept, rows = map snd kept\<rparr>)"

text \<open>\<^verbatim>\<open>df.reset_index(drop=True)\<close>: the labels become \<open>0..n-1\<close>.\<close>

definition reset_index :: "dataframe \<Rightarrow> dataframe" where
  "reset_index df = df\<lparr>index := [0..<length (rows df)]\<rparr>"

definition len_df :: "dataframe \<Rightarrow> nat" where
  "len_df df = length (rows df)"

definition wanted :: "string list" where
  "wanted = [''id'', ''title'', ''abstract'']"

text \<open>
  The statement \<^verbatim>\<open>df = pd.DataFrame(records).loc[:, [...]].dropna().reset_index(drop=True)\<close>.
\<close>

definition build_df :: "json list \<Rightarrow> error + dataframe" where
  "build_df records =
     (case DataFrame records of
        Inl e \<Rightarrow> Inl e
      | Inr df0 \<Rightarrow>
     (case loc_columns df0 wanted of
        Inl e \<Rightarrow> Inl e
      | Inr df1 \<Rightarrow> Inr (reset_index (dropna df1))))"

text \<open>
  The cell: open the snapshot for reading, run the loop over the handle, build the frame.
  The world comes back with the result, also when an exception ends the cell. The
  closing \<^verbatim>\<open>print\<close> of the number of rows only writes to the output and is left out.
\<close>

definition load_cell :: "decoder \<Rightarrow> world \<Rightarrow> (error + dataframe) \<times> world" where
  "load_cell loads w =
     (case py_open w snapshot_path ''r'' of
        Inl e \<Rightarrow> (Inl e, w)
      | Inr (f, w') \<Rightarrow>
     (case read_loop loads 0 f [] of
        Inl e \<Rightarrow> (Inl e, w')
      | Inr records \<Rightarrow> (build_df records, w')))"

subsection \<open>Cell f861fabf: constants\<close>

record hyperparameters =
  TRAIN_TEST_SPLIT :: real
  MAX_INPUT_LENGTH :: nat
  MAX_TARGET_LENGTH :: nat
  MIN_TARGET_LENGTH :: nat
  BATCH_SIZE :: nat
  LEARNING_RATE :: real
  MAX_EPOCHS :: nat
  MODEL_CHECKPOINT :: string

definition constants :: hyperparameters where
  "constants =
     \<lparr>TRAIN_TEST_SPLIT = 0.1,
      MAX_INPUT_LENGTH = 384,
      MAX_TARGET_LENGTH = 48,
      MIN_TARGET_LENGTH = 5,
      BATCH_SIZE = 8,
      LEARNING_RATE = 0.001,
      MAX_EPOCHS = 1,
      MODEL_CHECKPOINT = ''t5-small''\<rparr>"

subsection \<open>Cell 18ad6853: the dataset\<close>

text \<open>
  A \<^verbatim>\<open>datasets.Dataset\<close> is a table: column names and rows. \<^verbatim>\<open>Dataset.from_pandas\<close>
  keeps the frame's columns; an index that is not the default range \<open>0..n-1\<close> becomes
  the extra column \<^verbatim>\<open>__index_level_0__\<close>. Values are kept as they are: Arrow's type
  inference is not part of the model.
\<close>

record dataset =
  column_names :: "string list"
  data :: "json list list"

definition from_pandas :: "dataframe \<Rightarrow> dataset" where
  "from_pandas df =
     (if index df = [0..<length (rows df)]
      then \<lparr>column_names = columns df, data = rows df\<rparr>
      else \<lparr>column_names = columns df @ [''__index_level_0__''],
            data = map (\<lambda>(i, row). row @ [JInt (int i)]) (zip (index df) (rows df))\<rparr>)"

text \<open>
  \<^verbatim>\<open>rename_column(old, new)\<close> raises \<^verbatim>\<open>ValueError\<close> when \<open>old\<close> is no column, when
  \<open>new\<close> is one already, or when \<open>new\<close> is empty.
\<close>

definition rename_column :: "dataset \<Rightarrow> string \<Rightarrow> string \<Rightarrow> error + dataset" where
  "rename_column ds old new =
     (if old \<notin> set (column_names ds) then Inl ValueError
      else if new \<in> set (column_names ds) then Inl ValueError
      else if new = [] then Inl ValueError
      else Inr (ds\<lparr>column_names := map (\<lambda>c. if c = old then new else c) (column_names ds)\<rparr>))"

text \<open>\<^verbatim>\<open>examples[name]\<close>: the values of a column, \<^verbatim>\<open>KeyError\<close> when there is none.\<close>

definition getitem :: "dataset \<Rightarrow> string \<Rightarrow> error + json list" where
  "getitem ds name =
     (if name \<in> set (column_names ds)
      then Inr (map (\<lambda>row. row ! column_pos (column_names ds) name) (data ds))
      else Inl KeyError)"

subsection \<open>The tokenizer, the metric and the other library parameters\<close>

text \<open>
  A tokenizer object, as far as the notebook uses it: two attributes, the call that
  encodes one text under the given settings, and \<^verbatim>\<open>batch_decode\<close>, which takes the
  flag \<^verbatim>\<open>skip_special_tokens\<close> and the ids and may raise. With
  \<^verbatim>\<open>padding="max_length"\<close> a batch is encoded text by text.
\<close>

record encoding =
  input_ids :: "int list"
  attention_mask :: "int list"

record features = encoding +
  labels :: "int list"

record encode_args =
  as_target :: bool
  max_length :: nat
  truncation :: bool
  padding :: string

record tokenizer =
  vocab_size :: int
  pad_token_id :: int
  encode :: "encode_args \<Rightarrow> string \<Rightarrow> encoding"
  batch_decode :: "bool \<Rightarrow> int list list \<Rightarrow> error + string list"

record rouge_result =
  precision :: real
  recall :: real
  f1_score :: real

text \<open>
  The model object is represented by its checkpoint and the optimizer it was compiled
  with.
\<close>

record keras_model =
  checkpoint :: string
  optimizer :: "string option"

text \<open>
  The \<^verbatim>\<open>keras_hub.metrics.RougeL\<close> object is a Keras metric: a call updates its state
  with the references and predictions given and returns the result of the state. Its
  state is the list of the pairs it has been called on; the library parameter gives the
  result for such a list.
\<close>

type_synonym rouge_state = "(string list \<times> string list) list"

text \<open>
  The library: the import statements of the first cell, \<^verbatim>\<open>json.loads\<close>,
  \<^verbatim>\<open>Dataset.train_test_split(test_size, seed)\<close>, \<^verbatim>\<open>AutoTokenizer.from_pretrained\<close> and
  \<^verbatim>\<open>TFAutoModelForSeq2SeqLM.from_pretrained\<close>, which look the checkpoint up in the file
  system (a local directory of that name, the hub cache) and may write the cache,
  \<^verbatim>\<open>Dataset.shuffle(seed)\<close> on the rows of a tokenized split, and the result of the
  ROUGE-L metric.
\<close>

record library =
  run_imports :: "unit io"
  json_loads :: decoder
  train_test_split :: "real \<Rightarrow> nat \<Rightarrow> dataset \<Rightarrow> error + (dataset \<times> dataset)"
  tokenizer_from_pretrained :: "string \<Rightarrow> tokenizer io"
  model_from_pretrained :: "string \<Rightarrow> keras_model io"
  shuffle :: "nat \<Rightarrow> features list \<Rightarrow> features list"
  rouge_l :: "rouge_state \<Rightarrow> rouge_result"

subsection \<open>Cell 42c30f47: imports and process settings\<close>

text \<open>
  The cell runs the import statements, which are the library's code: they may set
  variables of the environment and may raise. Then it sets the logger's level to
  \<^verbatim>\<open>logging.ERROR\<close> (40) and, as its last statement, assigns
  \<^verbatim>\<open>os.environ["TOKENIZERS_PARALLELISM"] = "false"\<close>.
\<close>

definition process_settings :: "world \<Rightarrow> world" where
  "process_settings w =
     w\<lparr>tf_log_level := 40, env := (env w)(''TOKENIZERS_PARALLELISM'' \<mapsto> ''false'')\<rparr>"

definition setup_cell :: "library \<Rightarrow> unit io" where
  "setup_cell lib w =
     (case run_imports lib w of
        (Inl e, w1) \<Rightarrow> (Inl e, w1)
      | (Inr u, w1) \<Rightarrow> (Inr (), process_settings w1))"

subsection \<open>Cells ca1c60d8 and 0a20ef81: prefix and preprocess_function\<close>

definition startswith :: "string \<Rightarrow> string \<Rightarrow> bool" where
  "startswith s p = (take (length p) s = p)"

definition prefix :: "hyperparameters \<Rightarrow> string" where
  "prefix hp = (if startswith (MODEL_CHECKPOINT hp) ''t5-'' then ''summarize: '' else [])"

fun is_str :: "json \<Rightarrow> bool" where
  "is_str (JStr s) = True"
| "is_str _ = False"

fun str_of :: "json \<Rightarrow> string" where
  "str_of (JStr s) = s"
| "str_of _ = []"

text \<open>
  \<open>examples\<close> is a batch of the dataset. \<^verbatim>\<open>prefix + txt\<close> is a \<^verbatim>\<open>TypeError\<close> when
  \<open>txt\<close> is not a str; the tokenizer refuses a target that is not a str with a
  \<^verbatim>\<open>ValueError\<close>. The result is the returned \<^verbatim>\<open>model_inputs\<close>, read row by row:
  \<^verbatim>\<open>input_ids\<close> and \<^verbatim>\<open>attention_mask\<close> of the input, and \<^verbatim>\<open>labels\<close>, the
  \<^verbatim>\<open>input_ids\<close> of the target.
\<close>

definition preprocess_function ::
  "hyperparameters \<Rightarrow> tokenizer \<Rightarrow> dataset \<Rightarrow> error + features list" where
  "preprocess_function hp tok examples =
     (case getitem examples ''input_text'' of
        Inl e \<Rightarrow> Inl e
      | Inr texts \<Rightarrow>
     (if \<not> list_all is_str texts then Inl TypeError
      else
        (let inputs = map (\<lambda>txt. prefix hp @ str_of txt) texts;
             model_inputs =
               map (encode tok \<lparr>as_target = False, max_length = MAX_INPUT_LENGTH hp,
                                truncation = True, padding = ''max_length''\<rparr>) inputs
         in (case getitem examples ''target_text'' of
               Inl e \<Rightarrow> Inl e
             | Inr targets \<Rightarrow>
            (if \<not> list_all is_str targets then Inl ValueError
             else
               (let labels =
                      map (encode tok \<lparr>as_target = True, max_length = MAX_TARGET_LENGTH hp,
                                       truncation = True, padding = ''max_length''\<rparr>)
                        (map str_of targets)
                in Inr (map (\<lambda>(m, l). \<lparr>input_ids = input_ids m,
                                        attention_mask = attention_mask m,
                                        labels = input_ids l\<rparr>)
                          (zip model_inputs labels))))))))"

subsection \<open>Cell 00e60b01: mapping over the splits\<close>

text \<open>
  \<^verbatim>\<open>Dataset.map(f, batched=True, remove_columns=...)\<close> refuses columns the dataset does
  not have, cuts the rows into batches of 1000 (the default), applies \<open>f\<close> to each and
  joins the results. The splits have the three columns of the dataset and all three are
  removed, so a row of the result holds what \<open>f\<close> returned for it.
\<close>

function chunks :: "nat \<Rightarrow> 'a list \<Rightarrow> 'a list list" where
  "chunks n xs = (if n = 0 \<or> xs = [] then [] else take n xs # chunks n (drop n xs))"
  by pat_completeness auto
termination
  by (relation "measure (\<lambda>(n, xs). length xs)") auto

declare chunks.simps [simp del]

fun collect :: "('a \<Rightarrow> error + 'b list) \<Rightarrow> 'a list \<Rightarrow> error + 'b list" where
  "collect f [] = Inr []"
| "collect f (b # bs) =
     (case f b of
        Inl e \<Rightarrow> Inl e
      | Inr ys \<Rightarrow> (case collect f bs of Inl e \<Rightarrow> Inl e | Inr zs \<Rightarrow> Inr (ys @ zs)))"

definition map_batched ::
  "(dataset \<Rightarrow> error + features list) \<Rightarrow> string list \<Rightarrow> dataset \<Rightarrow> error + features list" where
  "map_batched f remove_columns ds =
     (if \<not> list_all (\<lambda>c. c \<in> set (column_names ds)) remove_columns then Inl ValueError
      else collect (\<lambda>batch. f (ds\<lparr>data := batch\<rparr>)) (chunks 1000 (data ds)))"

subsection \<open>Cells 5a52a572, b6510686 and f9d0e222: model, collator, TensorFlow datasets\<close>

text \<open>
  The objects the framework builds are represented by the requests that build them: a
  \<^verbatim>\<open>tf.data\<close> dataset by the rows it reads and the arguments of \<^verbatim>\<open>to_tf_dataset\<close>. An
  argument the notebook does not pass is \<open>None\<close>: the library's default applies.
\<close>

record collator =
  collator_checkpoint :: string
  return_tensors :: string

record tf_dataset =
  source :: "features list"
  feature_columns :: "string list"
  label_cols :: "string list"
  shuffled :: bool
  batch_size :: nat
  collate_fn :: collator
  prefetch :: "bool option"
  num_workers :: "nat option"

definition data_collator :: "hyperparameters \<Rightarrow> collator" where
  "data_collator hp = \<lparr>collator_checkpoint = MODEL_CHECKPOINT hp, return_tensors = ''tf''\<rparr>"

definition to_tf_dataset :: "hyperparameters \<Rightarrow> bool \<Rightarrow> features list \<Rightarrow> tf_dataset" where
  "to_tf_dataset hp shuf xs =
     \<lparr>source = xs,
      feature_columns = [''input_ids'', ''attention_mask''],
      label_cols = [''labels''],
      shuffled = shuf,
      batch_size = BATCH_SIZE hp,
      collate_fn = data_collator hp,
      prefetch = None,
      num_workers = None\<rparr>"

text \<open>\<^verbatim>\<open>Dataset.select(indices)\<close>: an index beyond the rows is an \<^verbatim>\<open>IndexError\<close>.\<close>

definition select :: "nat list \<Rightarrow> 'a list \<Rightarrow> error + 'a list" where
  "select indices xs =
     (if list_all (\<lambda>i. i < length xs) indices
      then Inr (map (\<lambda>i. xs ! i) indices)
      else Inl IndexError)"

definition generation_dataset ::
  "library \<Rightarrow> hyperparameters \<Rightarrow> features list \<Rightarrow> error + tf_dataset" where
  "generation_dataset lib hp tokenized_test =
     (case select [0..<200] (shuffle lib 42 tokenized_test) of
        Inl e \<Rightarrow> Inl e
      | Inr xs \<Rightarrow> Inr (to_tf_dataset hp False xs))"

definition compile :: "keras_model \<Rightarrow> string \<Rightarrow> keras_model" where
  "compile m opt = m\<lparr>optimizer := Some opt\<rparr>"

subsection \<open>Cell d66aaa61: metric_fn\<close>

text \<open>
  The predictions and the labels arrive as TensorFlow tensors or as numpy arrays of
  integers; \<^verbatim>\<open>.numpy()\<close> turns the first into the second. \<^verbatim>\<open>astype(np.int64)\<close> keeps
  every value an int64 can hold and wraps the others. \<^verbatim>\<open>np.clip(a, lo, hi)\<close> is
  \<^verbatim>\<open>minimum(hi, maximum(a, lo))\<close>; \<^verbatim>\<open>np.where(a < 0, v, a)\<close> replaces the negative
  entries by \<open>v\<close>.
\<close>

datatype array_like = Tensor "int list list" | NdArray "int list list"

fun numpy :: "array_like \<Rightarrow> int list list" where
  "numpy (Tensor a) = a"
| "numpy (NdArray a) = a"

definition astype_int64 :: "int \<Rightarrow> int" where
  "astype_int64 v = sint (word_of_int v :: 64 word)"

definition np_clip :: "int \<Rightarrow> int \<Rightarrow> int \<Rightarrow> int" where
  "np_clip v lo hi = min hi (max v lo)"

definition clipped_preds :: "tokenizer \<Rightarrow> array_like \<Rightarrow> int list list" where
  "clipped_preds tok preds =
     map (map (\<lambda>v. np_clip (astype_int64 v) 0 (vocab_size tok - 1))) (numpy preds)"

definition masked_labels :: "tokenizer \<Rightarrow> array_like \<Rightarrow> int list list" where
  "masked_labels tok labs =
     map (map (\<lambda>v. if v < 0 then pad_token_id tok else v)) (numpy labs)"

text \<open>
  \<open>seen\<close> is the state of the \<^verbatim>\<open>rouge_l\<close> object when the function is called; the call
  \<^verbatim>\<open>rouge_l(decoded_labels, decoded_preds)\<close> adds the pair to it.
\<close>

definition metric_fn ::
  "library \<Rightarrow> tokenizer \<Rightarrow> rouge_state \<Rightarrow> array_like \<times> array_like
     \<Rightarrow> error + ((string \<times> real) list \<times> rouge_state)" where
  "metric_fn lib tok seen eval_predictions =
     (case eval_predictions of (preds, labs) \<Rightarrow>
        (case batch_decode tok True (clipped_preds tok preds) of
           Inl e \<Rightarrow> Inl e
         | Inr decoded_preds \<Rightarrow>
        (case batch_decode tok True (masked_labels tok labs) of
           Inl e \<Rightarrow> Inl e
         | Inr decoded_labels \<Rightarrow>
             (let seen' = seen @ [(decoded_labels, decoded_preds)];
                  res = rouge_l lib seen'
              in Inr ([(''RougeL'', f1_score res)], seen')))))"

subsection \<open>Cells c44c8f54, af828bf3 and 5cc2cfd9: callback, training, pipeline\<close>

record metric_callback =
  callback_metric_fn ::
    "rouge_state \<Rightarrow> array_like \<times> array_like \<Rightarrow> error + ((string \<times> real) list \<times> rouge_state)"
  eval_dataset :: tf_dataset
  predict_with_generate :: bool

record fit_request =
  fit_model :: keras_model
  fit_data :: tf_dataset
  validation_data :: tf_dataset
  epochs :: nat
  steps_per_epoch :: nat
  validation_steps :: nat
  callbacks :: "metric_callback list"
  workers :: "nat option"
  use_multiprocessing :: "bool option"

record pipeline_request =
  task :: string
  pipeline_model :: keras_model
  pipeline_tokenizer :: tokenizer
  framework :: string

subsection \<open>The notebook, top to bottom\<close>

text \<open>
  What the kernel holds when the last cell has run: the frame, the splits, the tokenized
  splits, the three TensorFlow datasets, the request \<^verbatim>\<open>model.fit\<close> received and the
  summarization pipeline. An exception in a cell ends the run; the world is returned as
  the run left it.
\<close>

record session =
  nb_df :: dataframe
  nb_tokenizer :: tokenizer
  nb_splits :: "dataset \<times> dataset"
  nb_tokenized_splits :: "features list \<times> features list"
  nb_train_dataset :: tf_dataset
  nb_test_dataset :: tf_dataset
  nb_generation_dataset :: tf_dataset
  nb_fit :: fit_request
  nb_summarizer :: pipeline_request

definition build_cell :: "library \<Rightarrow> hyperparameters \<Rightarrow> dataframe \<Rightarrow> error + (dataset \<times> dataset)" where
  "build_cell lib hp df =
     (case rename_column (from_pandas df) ''abstract'' ''input_text'' of
        Inl e \<Rightarrow> Inl e
      | Inr ds1 \<Rightarrow>
     (case rename_column ds1 ''title'' ''target_text'' of
        Inl e \<Rightarrow> Inl e
      | Inr ds \<Rightarrow> train_test_split lib (TRAIN_TEST_SPLIT hp) 42 ds))"

definition tokenize_cell ::
  "hyperparameters \<Rightarrow> tokenizer \<Rightarrow> dataset \<times> dataset \<Rightarrow> error + (features list \<times> features list)" where
  "tokenize_cell hp tok splits =
     (case map_batched (preprocess_function hp tok)
             [''id'', ''input_text'', ''target_text''] (fst splits) of
        Inl e \<Rightarrow> Inl e
      | Inr train \<Rightarrow>
     (case map_batched (preprocess_function hp tok)
             [''id'', ''input_text'', ''target_text''] (snd splits) of
        Inl e \<Rightarrow> Inl e
      | Inr test \<Rightarrow> Inr (train, test)))"

text \<open>
  The cells after the loading cell. The world goes to the two \<^verbatim>\<open>from_pretrained\<close> calls
  and comes back from them; no statement of these cells touches it otherwise.
\<close>

definition later_cells :: "library \<Rightarrow> hyperparameters \<Rightarrow> dataframe \<Rightarrow> session io" where
  "later_cells lib hp df w =
     (case build_cell lib hp df of
        Inl e \<Rightarrow> (Inl e, w)
      | Inr splits \<Rightarrow>
     (case tokenizer_from_pretrained lib (MODEL_CHECKPOINT hp) w of
        (Inl e, w1) \<Rightarrow> (Inl e, w1)
      | (Inr tok, w1) \<Rightarrow>
     (case model_from_pretrained lib (MODEL_CHECKPOINT hp) w1 of
        (Inl e, w2) \<Rightarrow> (Inl e, w2)
      | (Inr model0, w2) \<Rightarrow>
     (case tokenize_cell hp tok splits of
        Inl e \<Rightarrow> (Inl e, w2)
      | Inr tokenized_splits \<Rightarrow>
     (let train_dataset = to_tf_dataset hp True (fst tokenized_splits);
          test_dataset = to_tf_dataset hp False (snd tokenized_splits)
      in case generation_dataset lib hp (snd tokenized_splits) of
        Inl e \<Rightarrow> (Inl e, w2)
      | Inr gen \<Rightarrow>
     (let model1 = compile model0 ''adam'';
          cb = \<lparr>callback_metric_fn = metric_fn lib tok, eval_dataset = gen,
                predict_with_generate = True\<rparr>;
          fit = \<lparr>fit_model = model1, fit_data = train_dataset,
                 validation_data = test_dataset, epochs = 3, steps_per_epoch = 500,
                 validation_steps = 50, callbacks = [cb], workers = None,
                 use_multiprocessing = None\<rparr>;
          summarizer = \<lparr>task = ''summarization'', pipeline_model = model1,
                        pipeline_tokenizer = tok, framework = ''tf''\<rparr>
      in (Inr \<lparr>nb_df = df, nb_tokenizer = tok, nb_splits = splits,
               nb_tokenized_splits = tokenized_splits,
               nb_train_dataset = train_dataset, nb_test_dataset = test_dataset,
               nb_generation_dataset = gen, nb_fit = fit, nb_summarizer = summarizer\<rparr>,
          w2)))))))"

definition notebook :: "library \<Rightarrow> hyperparameters \<Rightarrow> session io" where
  "notebook lib hp w0 =
     (case setup_cell lib w0 of
        (Inl e, w1) \<Rightarrow> (Inl e, w1)
      | (Inr u, w1) \<Rightarrow>
     (case load_cell (json_loads lib) w1 of
        (Inl e, w2) \<Rightarrow> (Inl e, w2)
      | (Inr df, w2) \<Rightarrow> later_cells lib hp df w2))"

subsection \<open>Notions the statements use\<close>

text \<open>
  The lines the loop hands to the decoder: the non-blank ones among the first \<open>N\<close>.
  A record is complete when none of the three wanted fields is absent, \<^verbatim>\<open>null\<close> or NaN.
  \<open>frame_of\<close> is the frame of the three wanted columns over a list of records, with the
  default index.
\<close>

definition consumed :: "string list \<Rightarrow> string list" where
  "consumed ls = filter (\<lambda>l. strip l \<noteq> []) (take N ls)"

definition complete :: "json \<Rightarrow> bool" where
  "complete r = (\<not> list_ex (\<lambda>c. isna (cell r c)) wanted)"

definition incomplete_line :: "decoder \<Rightarrow> string \<Rightarrow> bool" where
  "incomplete_line loads l = (case loads l of None \<Rightarrow> False | Some r \<Rightarrow> \<not> complete r)"

text \<open>A record whose three wanted fields are strings where they are not missing.\<close>

definition text_fields :: "json \<Rightarrow> bool" where
  "text_fields r = list_all (\<lambda>c. is_str (cell r c) \<or> isna (cell r c)) wanted"

definition frame_of :: "json list \<Rightarrow> dataframe" where
  "frame_of rs =
     \<lparr>columns = wanted, index = [0..<length rs], rows = map (\<lambda>r. map (cell r) wanted) rs\<rparr>"

text \<open>
  A dataset of text records under the renamed columns, and what tokenizing one such
  record is to give: the encoding of the prefixed abstract, and as labels the ids of
  the encoded title.
\<close>

definition text_rows :: "(json \<times> string \<times> string) list \<Rightarrow> dataset" where
  "text_rows recs =
     \<lparr>column_names = [''id'', ''target_text'', ''input_text''],
      data = map (\<lambda>(i, title, abstract). [i, JStr title, JStr abstract]) recs\<rparr>"

definition tokenized_example ::
  "hyperparameters \<Rightarrow> tokenizer \<Rightarrow> json \<times> string \<times> string \<Rightarrow> features" where
  "tokenized_example hp tok rec =
     (case rec of (i, title, abstract) \<Rightarrow>
        (let m = encode tok \<lparr>as_target = False, max_length = MAX_INPUT_LENGTH hp,
                             truncation = True, padding = ''max_length''\<rparr>
                   (prefix hp @ abstract);
             l = encode tok \<lparr>as_target = True, max_length = MAX_TARGET_LENGTH hp,
                             truncation = True, padding = ''max_length''\<rparr> title
         in \<lparr>input_ids = input_ids m, attention_mask = attention_mask m,
             labels = input_ids l\<rparr>))"


subsection \<open>Sample inputs\<close>

text \<open>
  Lines of a snapshot, for the examples: a full record, a record without an abstract, a
  record whose title is \<^verbatim>\<open>null\<close>, a record cut off in the middle, and a blank line.
\<close>

definition line_full :: string where
  "line_full = ''{\"id\": \"0704.0001\", \"authors\": \"C. Balazs\", \"title\": \"Diphoton production\", \"abstract\": \"A calculation.\"}\<newline>''"

definition line_no_abstract :: string where
  "line_no_abstract = ''{\"id\": \"0704.0002\", \"title\": \"Sparsity\"}\<newline>''"

definition line_null_title :: string where
  "line_null_title = ''{\"id\": \"0704.0003\", \"title\": null, \"abstract\": \"We study.\"}\<newline>''"

definition line_cut :: string where
  "line_cut = ''{\"id\": \"0704.0004\", \"tit''"

definition line_blank :: string where
  "line_blank = ''  \<newline>''"

definition record_full :: json where
  "record_full =
     JObj [(''id'', JStr ''0704.0001''), (''authors'', JStr ''C. Balazs''),
           (''title'', JStr ''Diphoton production''), (''abstract'', JStr ''A calculation.'')]"

definition record_no_abstract :: json where
  "record_no_abstract = JObj [(''id'', JStr ''0704.0002''), (''title'', JStr ''Sparsity'')]"

definition record_null_title :: json where
  "record_null_title =
     JObj [(''id'', JStr ''0704.0003''), (''title'', JNull), (''abstract'', JStr ''We study.'')]"

text \<open>
  The decoder of the examples: \<^verbatim>\<open>json.loads\<close> on the three lines above that are valid
  JSON. It rejects \<open>line_cut\<close>, as \<^verbatim>\<open>json.loads\<close> does; the examples give it no other
  line.
\<close>

definition sample_loads :: decoder where
  "sample_loads line =
     (if line = line_full then Some record_full
      else if line = line_no_abstract then Some record_no_abstract
      else if line = line_null_title then Some record_null_title
      else None)"

definition sample_world :: "string list \<Rightarrow> world" where
  "sample_world ls = \<lparr>fs = [snapshot_path \<mapsto> ls], env = Map.empty, tf_log_level = 0\<rparr>"

text \<open>
  A small library for the examples. The tokenizer works on characters: the ids of a text
  are its character codes, cut and padded with the pad id 0 as the settings ask; it has
  the vocabulary size and pad id of the \<^verbatim>\<open>t5-small\<close> tokenizer and, like a
  SentencePiece tokenizer, refuses to decode an id outside its vocabulary with an
  \<^verbatim>\<open>IndexError\<close>. The split takes the first
  \<open>\<lceil>test_size \<sqdot> n\<rceil>\<close> rows as the test set and refuses an empty side, the shuffle
  reverses, and the metric is the share of predictions equal to their reference among
  all the pairs it has been called on. The imports set \<^verbatim>\<open>TF2_BEHAVIOR\<close>, as importing
  TensorFlow does. In \<open>sample_library\<close> the checkpoint is at hand and
  \<^verbatim>\<open>from_pretrained\<close> touches no file. In \<open>hub_library\<close> it looks the checkpoint up as
  the transformers library does: a local directory of that name comes first (here the
  vocabulary has as many ids as the directory's tokenizer file has lines), then the hub
  cache, and a checkpoint that is in neither is fetched and written to the cache.
\<close>

definition sample_encode :: "encode_args \<Rightarrow> string \<Rightarrow> encoding" where
  "sample_encode args s =
     (let ids = map (\<lambda>c. (of_char c :: int)) s;
          kept = (if truncation args then take (max_length args) ids else ids);
          pad = (if padding args = ''max_length'' then max_length args - length kept else 0)
      in \<lparr>input_ids = kept @ replicate pad 0,
          attention_mask = replicate (length kept) 1 @ replicate pad 0\<rparr>)"

definition sample_decode :: "bool \<Rightarrow> int list list \<Rightarrow> error + string list" where
  "sample_decode skip_special_tokens idss =
     (if list_all (list_all (\<lambda>v. 0 \<le> v \<and> v < 32100)) idss
      then Inr (map (\<lambda>ids. map char_of (filter (\<lambda>v. \<not> skip_special_tokens \<or> v \<noteq> 0) ids)) idss)
      else Inl IndexError)"

definition sample_tokenizer :: tokenizer where
  "sample_tokenizer =
     \<lparr>vocab_size = 32100, pad_token_id = 0, encode = sample_encode,
      batch_decode = sample_decode\<rparr>"

definition sample_split :: "real \<Rightarrow> nat \<Rightarrow> dataset \<Rightarrow> error + (dataset \<times> dataset)" where
  "sample_split test_size seed ds =
     (let n = length (data ds); k = nat \<lceil>test_size * real n\<rceil>
      in if k = 0 \<or> n \<le> k then Inl ValueError
         else Inr (ds\<lparr>data := drop k (data ds)\<rparr>, ds\<lparr>data := take k (data ds)\<rparr>))"

definition sample_rouge :: "rouge_state \<Rightarrow> rouge_result" where
  "sample_rouge seen =
     (let pairs = concat (map (\<lambda>(y_true, y_pred). zip y_true y_pred) seen);
          hits = filter (\<lambda>(t, p). t = p) pairs;
          score = (if pairs = [] then 0 else real (length hits) / real (length pairs))
      in \<lparr>precision = score, recall = score, f1_score = score\<rparr>)"

definition sample_imports :: "unit io" where
  "sample_imports w = (Inr (), w\<lparr>env := (env w)(''TF2_BEHAVIOR'' \<mapsto> ''1'')\<rparr>)"

definition sample_library :: library where
  "sample_library =
     \<lparr>run_imports = sample_imports,
      json_loads = sample_loads,
      train_test_split = sample_split,
      tokenizer_from_pretrained = (\<lambda>name w. (Inr sample_tokenizer, w)),
      model_from_pretrained = (\<lambda>name w. (Inr \<lparr>checkpoint = name, optimizer = None\<rparr>, w)),
      shuffle = (\<lambda>seed. rev),
      rouge_l = sample_rouge\<rparr>"

definition hub_cache :: "string \<Rightarrow> string" where
  "hub_cache name = ''.cache/huggingface/hub/models--'' @ name"

definition hub_tokenizer :: "string \<Rightarrow> tokenizer io" where
  "hub_tokenizer name w =
     (case fs w (name @ ''/tokenizer.json'') of
        Some ls \<Rightarrow> (Inr (sample_tokenizer\<lparr>vocab_size := int (length ls)\<rparr>), w)
      | None \<Rightarrow>
          (case fs w (hub_cache name) of
             Some ls \<Rightarrow> (Inr sample_tokenizer, w)
           | None \<Rightarrow> (Inr sample_tokenizer, w\<lparr>fs := (fs w)(hub_cache name \<mapsto> [name])\<rparr>)))"

definition hub_model :: "string \<Rightarrow> keras_model io" where
  "hub_model name w =
     (case fs w (name @ ''/config.json'') of
        Some ls \<Rightarrow> (Inr \<lparr>checkpoint = name, optimizer = None\<rparr>, w)
      | None \<Rightarrow>
          (case fs w (hub_cache name) of
             Some ls \<Rightarrow> (Inr \<lparr>checkpoint = name, optimizer = None\<rparr>, w)
           | None \<Rightarrow>
               (Inr \<lparr>checkpoint = name, optimizer = None\<rparr>,
                w\<lparr>fs := (fs w)(hub_cache name \<mapsto> [name])\<rparr>)))"

definition hub_library :: library where
  "hub_library =
     sample_library\<lparr>tokenizer_from_pretrained := hub_tokenizer,
                    model_from_pretrained := hub_model\<rparr>"

definition sample_text :: "json \<times> string \<times> string" where
  "sample_text = (JStr ''0704.0001'', ''Diphoton production'', ''A calculation.'')"

definition sample_snapshot :: "string list" where
  "sample_snapshot = replicate 2000 line_full"

section \<open>Properties\<close>

subsection \<open>The loading cell, step by step\<close>

lemma those_map_Some: "those (map Some xs) = Some xs"
  by (induction xs) auto

lemma those_eq_Some: "those xs = Some ys \<longleftrightarrow> xs = map Some ys"
proof (induction xs arbitrary: ys)
  case Nil
  then show ?case by auto
next
  case (Cons x xs)
  show ?case
  proof (cases x)
    case None
    then show ?thesis by auto
  next
    case (Some a)
    show ?thesis
    proof (cases "those xs")
      case None
      with Some Cons.IH show ?thesis by (cases ys) auto
    next
      case s: (Some as)
      then have "xs = map Some as" using Cons.IH by simp
      with Some s show ?thesis by (cases ys) auto
    qed
  qed
qed

lemma read_loop_those:
  "read_loop loads i ls recs =
     (case those (map loads (filter (\<lambda>l. strip l \<noteq> []) (take (N - i) ls))) of
        None \<Rightarrow> Inl JSONDecodeError
      | Some rs \<Rightarrow> Inr (recs @ rs))"
proof (induction ls arbitrary: i recs)
  case Nil
  then show ?case by simp
next
  case (Cons l ls)
  show ?case
  proof (cases "i \<ge> N")
    case True
    then show ?thesis by simp
  next
    case False
    then have eq: "N - i = Suc (N - Suc i)" by simp
    show ?thesis
      using False Cons.IH [of "Suc i"]
      by (simp add: eq split: option.splits)
  qed
qed

lemma read_loop_consumed:
  "read_loop loads 0 ls [] =
     (case those (map loads (consumed ls)) of
        None \<Rightarrow> Inl JSONDecodeError
      | Some rs \<Rightarrow> Inr rs)"
  by (simp add: read_loop_those consumed_def cong: option.case_cong)

lemma nth_column_pos:
  "c \<in> set cols \<Longrightarrow> map f cols ! column_pos cols c = f c"
  unfolding column_pos_def
  by (induction cols) auto

lemma loc_DataFrame:
  assumes "DataFrame records = Inr df0"
  shows "loc_columns df0 cols =
     (if list_all (\<lambda>c. c \<in> set (concat (map keys records))) cols
      then Inr \<lparr>columns = cols, index = [0..<length records],
                rows = map (\<lambda>r. map (cell r) cols) records\<rparr>
      else Inl KeyError)"
proof -
  define all where "all = rev (remdups (rev (concat (map keys records))))"
  have df0: "df0 = \<lparr>columns = all, index = [0..<length records],
                     rows = map (\<lambda>r. map (cell r) all) records\<rparr>"
    using assms by (simp add: DataFrame_def Let_def all_def split: if_splits)
  have set_all: "set all = set (concat (map keys records))"
    by (simp add: all_def)
  show ?thesis
  proof (cases "list_all (\<lambda>c. c \<in> set all) cols")
    case True
    then have "\<And>r c. c \<in> set cols \<Longrightarrow> map (cell r) all ! column_pos all c = cell r c"
      by (simp add: list_all_iff nth_column_pos)
    then have "map (\<lambda>row. map (\<lambda>c. row ! column_pos all c) cols) (map (\<lambda>r. map (cell r) all) records)
        = map (\<lambda>r. map (cell r) cols) records"
      by simp
    with True show ?thesis
      by (simp add: loc_columns_def df0 set_all)
  next
    case False
    then show ?thesis
      by (simp add: loc_columns_def df0 set_all)
  qed
qed

lemma dropna_reset:
  "reset_index (dropna \<lparr>columns = cols, index = [0..<length records],
                rows = map (\<lambda>r. map (cell r) cols) records\<rparr>)
   = (let kept = filter (\<lambda>r. \<not> list_ex (\<lambda>c. isna (cell r c)) cols) records
      in \<lparr>columns = cols, index = [0..<length kept], rows = map (\<lambda>r. map (cell r) cols) kept\<rparr>)"
proof -
  have "map snd (filter (\<lambda>(i, row). \<not> list_ex isna row) (zip is (map f rs)))
      = map f (filter (\<lambda>r. \<not> list_ex isna (f r)) rs)"
    if "length is = length rs" for "is" :: "nat list" and f :: "json \<Rightarrow> json list" and rs
    using that by (induction "is" rs rule: list_induct2) auto
  from this [of "[0..<length records]" records "\<lambda>r. map (cell r) cols"]
  show ?thesis
    by (simp add: reset_index_def dropna_def Let_def list_ex_iff)
qed

lemma build_df_eq:
  "build_df records =
     (if \<not> list_all is_obj records then Inl FrameError
      else if \<not> list_all (\<lambda>c. list_ex (\<lambda>r. c \<in> set (keys r)) records) wanted then Inl KeyError
      else Inr (frame_of (filter complete records)))"
proof (cases "list_all is_obj records")
  case False
  then show ?thesis by (simp add: build_df_def DataFrame_def)
next
  case True
  then obtain df0 where df0: "DataFrame records = Inr df0"
    by (simp add: DataFrame_def Let_def)
  define present where "present = list_all (\<lambda>c. c \<in> set (concat (map keys records))) wanted"
  have keys: "present = list_all (\<lambda>c. list_ex (\<lambda>r. c \<in> set (keys r)) records) wanted"
    by (auto simp: present_def list_all_iff list_ex_iff)
  have loc: "loc_columns df0 wanted =
      (if present then Inr \<lparr>columns = wanted, index = [0..<length records],
                rows = map (\<lambda>r. map (cell r) wanted) records\<rparr>
       else Inl KeyError)"
    unfolding present_def by (rule loc_DataFrame [OF df0])
  show ?thesis
  proof (cases present)
    case False
    with True show ?thesis
      by (simp add: build_df_def df0 loc flip: keys)
  next
    case p: True
    have "build_df records = Inr (reset_index (dropna \<lparr>columns = wanted, index = [0..<length records],
                rows = map (\<lambda>r. map (cell r) wanted) records\<rparr>))"
      using p by (simp add: build_df_def df0 loc)
    also have "\<dots> = Inr (frame_of (filter complete records))"
      by (simp only: dropna_reset Let_def frame_of_def complete_def [abs_def])
    finally show ?thesis
      using True p by (simp flip: keys)
  qed
qed

lemma load_cell_eq:
  "fst (load_cell loads w) =
     (case fs w snapshot_path of
        None \<Rightarrow> Inl FileNotFoundError
      | Some ls \<Rightarrow>
          (case those (map loads (consumed ls)) of
             None \<Rightarrow> Inl JSONDecodeError
           | Some records \<Rightarrow> build_df records))"
  by (simp add: load_cell_def py_open_def read_loop_consumed split: option.splits)

lemma load_cell_world: "snd (load_cell loads w) = w"
  by (simp add: load_cell_def py_open_def read_loop_consumed split: option.splits)

lemma load_cell_pair: "load_cell loads w = (fst (load_cell loads w), w)"
  using load_cell_world [of loads w] by (cases "load_cell loads w") simp

lemma load_cell_same_snapshot:
  "fs w' snapshot_path = fs w snapshot_path \<Longrightarrow>
     fst (load_cell loads w') = fst (load_cell loads w)"
  by (simp add: load_cell_eq)

lemma consumed_explicit: "consumed ls = filter (\<lambda>l. strip l \<noteq> []) (take 200000 ls)"
  by (simp add: consumed_def N_def)

lemma load_cell_Inr:
  assumes "fst (load_cell loads w) = Inr df"
  obtains ls records where "fs w snapshot_path = Some ls"
    and "map loads (consumed ls) = map Some records"
    and "list_all is_obj records"
    and "list_all (\<lambda>c. list_ex (\<lambda>r. c \<in> set (keys r)) records) wanted"
    and "df = frame_of (filter complete records)"
proof -
  from assms obtain ls where ls: "fs w snapshot_path = Some ls"
    by (auto simp: load_cell_eq split: option.splits)
  with assms obtain records where recs: "those (map loads (consumed ls)) = Some records"
    and df: "build_df records = Inr df"
    by (auto simp: load_cell_eq split: option.splits)
  from df have "list_all is_obj records"
    and "list_all (\<lambda>c. list_ex (\<lambda>r. c \<in> set (keys r)) records) wanted"
    and "df = frame_of (filter complete records)"
    by (simp_all add: build_df_eq split: if_splits)
  moreover from recs have "map loads (consumed ls) = map Some records"
    by (simp add: those_eq_Some)
  ultimately show ?thesis
    using ls that by blast
qed

lemma load_cell_len:
  assumes "fs w snapshot_path = Some ls" and "fst (load_cell loads w) = Inr df"
  shows "\<exists>records. map loads (consumed ls) = map Some records
           \<and> len_df df = length (filter complete records)"
proof -
  from assms obtain records where recs: "those (map loads (consumed ls)) = Some records"
    and df: "build_df records = Inr df"
    by (auto simp: load_cell_eq split: option.splits)
  from df have "df = frame_of (filter complete records)"
    by (simp add: build_df_eq split: if_splits)
  then have "len_df df = length (filter complete records)"
    by (simp add: frame_of_def len_df_def)
  with recs show ?thesis by (auto simp: those_eq_Some)
qed

lemma rows_frame_of_complete:
  "list_all (\<lambda>row. length row = 3 \<and> \<not> list_ex isna row)
     (rows (frame_of (filter complete records)))"
  by (auto simp: frame_of_def list_all_iff complete_def wanted_def)

lemma length_filter_full:
  "length (filter P xs) = length xs \<longleftrightarrow> list_all P xs"
proof
  assume eq: "length (filter P xs) = length xs"
  show "list_all P xs"
  proof (rule ccontr)
    assume "\<not> list_all P xs"
    then obtain x where "x \<in> set xs" "\<not> P x"
      by (auto simp: list_all_iff)
    then have "length (filter P xs) < length xs"
      by (rule length_filter_less)
    with eq show False by simp
  qed
next
  assume "list_all P xs"
  then have "filter P xs = xs"
    by (simp add: list_all_iff)
  then show "length (filter P xs) = length xs"
    by simp
qed

lemma load_cell_count:
  assumes "fs w snapshot_path = Some ls" and "fst (load_cell loads w) = Inr df"
  shows "len_df df
     = length (filter (\<lambda>l. strip l \<noteq> [] \<and> \<not> incomplete_line loads l) (take N ls))"
proof -
  from load_cell_len [OF assms] obtain records
    where recs: "map loads (consumed ls) = map Some records"
      and len: "len_df df = length (filter complete records)"
    by blast
  have "map the (map loads (consumed ls)) = map the (map Some records)"
    by (simp only: recs)
  then have r: "records = map (\<lambda>l. the (loads l)) (consumed ls)"
    by (simp add: comp_def)
  have some: "loads l \<noteq> None" if "l \<in> set (consumed ls)" for l
  proof -
    from that have "loads l \<in> set (map loads (consumed ls))"
      by simp
    then show ?thesis
      unfolding recs by auto
  qed
  have eq: "complete (the (loads l)) \<longleftrightarrow> \<not> incomplete_line loads l"
    if "l \<in> set (consumed ls)" for l
  proof -
    from some [OF that] obtain r where "loads l = Some r"
      by auto
    then show ?thesis
      by (simp add: incomplete_line_def)
  qed
  have "filter (\<lambda>l. complete (the (loads l))) (consumed ls)
      = filter (\<lambda>l. \<not> incomplete_line loads l) (consumed ls)"
    by (rule filter_cong [OF refl]) (rule eq)
  then have "length (filter complete records)
      = length (filter (\<lambda>l. \<not> incomplete_line loads l) (consumed ls))"
    by (simp add: r filter_map comp_def)
  with len show ?thesis
    by (simp add: consumed_def)
qed

subsection \<open>The first cell and the order of the cells\<close>

lemma fs_process_settings: "fs (process_settings w) = fs w"
  by (simp add: process_settings_def)

lemma env_process_settings:
  "env (process_settings w) = (env w)(''TOKENIZERS_PARALLELISM'' \<mapsto> ''false'')"
  by (simp add: process_settings_def)

lemma setup_cell_Inr:
  assumes "fst (setup_cell lib w) = Inr u"
  shows "fst (run_imports lib w) = Inr ()"
    and "snd (setup_cell lib w) = process_settings (snd (run_imports lib w))"
  using assms
  by (cases "run_imports lib w"; cases "fst (run_imports lib w)"; simp add: setup_cell_def)+

lemma setup_cell_Inl:
  assumes "fst (setup_cell lib w) = Inl e"
  shows "fst (run_imports lib w) = Inl e"
    and "snd (setup_cell lib w) = snd (run_imports lib w)"
  using assms
  by (cases "run_imports lib w"; cases "fst (run_imports lib w)"; simp add: setup_cell_def)+

lemma setup_cell_imports:
  "run_imports lib w = (Inr (), w1) \<Longrightarrow> setup_cell lib w = (Inr (), process_settings w1)"
  by (simp add: setup_cell_def)

lemma notebook_cases:
  "notebook lib hp w =
     (case setup_cell lib w of
        (Inl e, w1) \<Rightarrow> (Inl e, w1)
      | (Inr u, w1) \<Rightarrow>
          (case fst (load_cell (json_loads lib) w1) of
             Inl e \<Rightarrow> (Inl e, w1)
           | Inr df \<Rightarrow> later_cells lib hp df w1))"
proof -
  have "(case load_cell (json_loads lib) w1 of
           (Inl e, w2) \<Rightarrow> (Inl e, w2)
         | (Inr df, w2) \<Rightarrow> later_cells lib hp df w2)
      = (case fst (load_cell (json_loads lib) w1) of
           Inl e \<Rightarrow> (Inl e, w1)
         | Inr df \<Rightarrow> later_cells lib hp df w1)" for w1
    by (subst load_cell_pair) (simp split: sum.splits)
  then show ?thesis
    by (simp add: notebook_def cong: prod.case_cong sum.case_cong)
qed

lemma notebook_Inr:
  assumes "fst (notebook lib hp w) = Inr s"
  obtains w1 df where "run_imports lib w = (Inr (), w1)"
    and "fst (load_cell (json_loads lib) (process_settings w1)) = Inr df"
    and "later_cells lib hp df (process_settings w1) = (Inr s, snd (notebook lib hp w))"
proof (cases "run_imports lib w")
  case (Pair r w1)
  show ?thesis
  proof (cases r)
    case (Inl e)
    with Pair assms show ?thesis
      by (simp add: notebook_cases setup_cell_def)
  next
    case (Inr u)
    with Pair have su: "setup_cell lib w = (Inr (), process_settings w1)"
      by (simp add: setup_cell_def)
    show ?thesis
    proof (cases "fst (load_cell (json_loads lib) (process_settings w1))")
      case (Inl e)
      with su assms show ?thesis
        by (simp add: notebook_cases)
    next
      case df: (Inr df)
      with su have nb: "notebook lib hp w = later_cells lib hp df (process_settings w1)"
        by (simp add: notebook_cases)
      with assms have "later_cells lib hp df (process_settings w1)
          = (Inr s, snd (notebook lib hp w))"
        by (cases "later_cells lib hp df (process_settings w1)") simp
      with Pair Inr df that show ?thesis
        by simp
    qed
  qed
qed

lemma later_cells_Inr:
  assumes "later_cells lib hp df w = (Inr s, w')"
  shows "build_cell lib hp df = Inr (nb_splits s)"
    and "\<exists>w1 m. tokenizer_from_pretrained lib (MODEL_CHECKPOINT hp) w = (Inr (nb_tokenizer s), w1)
           \<and> model_from_pretrained lib (MODEL_CHECKPOINT hp) w1 = (Inr m, w')
           \<and> fit_model (nb_fit s) = compile m ''adam''"
    and "tokenize_cell hp (nb_tokenizer s) (nb_splits s) = Inr (nb_tokenized_splits s)"
    and "generation_dataset lib hp (snd (nb_tokenized_splits s)) = Inr (nb_generation_dataset s)"
    and "callbacks (nb_fit s) =
           [\<lparr>callback_metric_fn = metric_fn lib (nb_tokenizer s),
             eval_dataset = nb_generation_dataset s, predict_with_generate = True\<rparr>]"
    and "fit_data (nb_fit s) = to_tf_dataset hp True (fst (nb_tokenized_splits s))"
    and "validation_data (nb_fit s) = to_tf_dataset hp False (snd (nb_tokenized_splits s))"
    and "nb_train_dataset s = to_tf_dataset hp True (fst (nb_tokenized_splits s))"
    and "nb_test_dataset s = to_tf_dataset hp False (snd (nb_tokenized_splits s))"
    and "epochs (nb_fit s) = 3"
    and "workers (nb_fit s) = None"
    and "use_multiprocessing (nb_fit s) = None"
    and "nb_df s = df"
  using assms
  by (auto simp: later_cells_def Let_def split: sum.splits prod.splits)

lemma later_cells_frame:
  assumes "\<And>name v. g (snd (tokenizer_from_pretrained lib name v)) = g v"
    and "\<And>name v. g (snd (model_from_pretrained lib name v)) = g v"
  shows "g (snd (later_cells lib hp df w)) = g w"
proof (cases "build_cell lib hp df")
  case (Inl e)
  then show ?thesis by (simp add: later_cells_def)
next
  case splits: (Inr splits)
  obtain r wa where t: "tokenizer_from_pretrained lib (MODEL_CHECKPOINT hp) w = (r, wa)"
    by (cases "tokenizer_from_pretrained lib (MODEL_CHECKPOINT hp) w")
  with assms(1) [of "MODEL_CHECKPOINT hp" w] have wa: "g wa = g w"
    by simp
  show ?thesis
  proof (cases r)
    case (Inl e)
    with splits t wa show ?thesis by (simp add: later_cells_def)
  next
    case tok: (Inr tok)
    obtain r' wb where m: "model_from_pretrained lib (MODEL_CHECKPOINT hp) wa = (r', wb)"
      by (cases "model_from_pretrained lib (MODEL_CHECKPOINT hp) wa")
    with assms(2) [of "MODEL_CHECKPOINT hp" wa] wa have wb: "g wb = g w"
      by simp
    from splits t tok m wb show ?thesis
      by (simp add: later_cells_def Let_def split: sum.splits)
  qed
qed

lemma notebook_frame_fs:
  assumes "\<And>v. fs (snd (run_imports lib v)) p = fs v p"
    and "\<And>name v. fs (snd (tokenizer_from_pretrained lib name v)) p = fs v p"
    and "\<And>name v. fs (snd (model_from_pretrained lib name v)) p = fs v p"
  shows "fs (snd (notebook lib hp w)) p = fs w p"
proof -
  obtain r wa where i: "run_imports lib w = (r, wa)"
    by (cases "run_imports lib w")
  with assms(1) [of w] have wa: "fs wa p = fs w p"
    by simp
  show ?thesis
  proof (cases r)
    case (Inl e)
    with i wa show ?thesis
      by (simp add: notebook_cases setup_cell_def)
  next
    case (Inr u)
    with i have "setup_cell lib w = (Inr (), process_settings wa)"
      by (simp add: setup_cell_def)
    moreover have "fs (snd (later_cells lib hp df (process_settings wa))) p = fs w p" for df
      using later_cells_frame [where g = "\<lambda>v. fs v p" and lib = lib and hp = hp and df = df
          and w = "process_settings wa"] assms(2,3) wa
      by (simp add: fs_process_settings)
    ultimately show ?thesis
      using wa by (simp add: notebook_cases fs_process_settings split: sum.splits)
  qed
qed

lemma notebook_missing_snapshot:
  assumes "fst (setup_cell lib w) = Inr u"
    and "fs (snd (setup_cell lib w)) snapshot_path = None"
  shows "notebook lib hp w = (Inl FileNotFoundError, snd (setup_cell lib w))"
proof -
  obtain r wa where s: "setup_cell lib w = (r, wa)"
    by (cases "setup_cell lib w")
  with assms have "r = Inr ()" and "fs wa snapshot_path = None"
    by simp_all
  with s show ?thesis
    by (simp add: notebook_cases load_cell_eq)
qed

lemma notebook_switch:
  assumes "\<And>name v. env (snd (tokenizer_from_pretrained lib name v)) x = env v x"
    and "\<And>name v. env (snd (model_from_pretrained lib name v)) x = env v x"
    and "fst (setup_cell lib w) = Inr u"
  shows "env (snd (notebook lib hp w)) x = env (snd (setup_cell lib w)) x"
proof -
  obtain r wa where s: "setup_cell lib w = (r, wa)"
    by (cases "setup_cell lib w")
  with assms(3) have r: "r = Inr ()"
    by simp
  have "env (snd (later_cells lib hp df wa)) x = env wa x" for df
    using later_cells_frame [where g = "\<lambda>v. env v x" and lib = lib and hp = hp and df = df
        and w = wa] assms(1,2)
    by simp
  with s r show ?thesis
    by (simp add: notebook_cases split: sum.splits)
qed

lemma notebook_frame:
  assumes "fst (notebook lib hp w) = Inr s"
  shows "fst (load_cell (json_loads lib) (snd (run_imports lib w))) = Inr (nb_df s)"
proof -
  from assms obtain w1 df where i: "run_imports lib w = (Inr (), w1)"
    and l: "fst (load_cell (json_loads lib) (process_settings w1)) = Inr df"
    and c: "later_cells lib hp df (process_settings w1) = (Inr s, snd (notebook lib hp w))"
    by (rule notebook_Inr)
  have "fst (load_cell (json_loads lib) w1)
      = fst (load_cell (json_loads lib) (process_settings w1))"
    by (rule load_cell_same_snapshot [symmetric]) (simp add: fs_process_settings)
  with i l later_cells_Inr(13) [OF c] show ?thesis
    by simp
qed


subsection \<open>Renaming, batching and tokenizing\<close>


lemma build_cell_frame_of:
  "build_cell lib hp (frame_of rs) =
     train_test_split lib (TRAIN_TEST_SPLIT hp) 42
       \<lparr>column_names = [''id'', ''target_text'', ''input_text''],
        data = map (\<lambda>r. [cell r ''id'', cell r ''title'', cell r ''abstract'']) rs\<rparr>"
  by (simp add: build_cell_def from_pandas_def frame_of_def wanted_def rename_column_def)


lemma getitem_renamed:
  "getitem \<lparr>column_names = [''id'', ''target_text'', ''input_text''],
            data = map (\<lambda>(i, t, a). [i, t, a]) recs\<rparr> ''input_text''
     = Inr (map (\<lambda>(i, t, a). a) recs)"
  "getitem \<lparr>column_names = [''id'', ''target_text'', ''input_text''],
            data = map (\<lambda>(i, t, a). [i, t, a]) recs\<rparr> ''target_text''
     = Inr (map (\<lambda>(i, t, a). t) recs)"
  by (simp_all add: getitem_def column_pos_def case_prod_unfold)

lemma preprocess_function_strings:
  "preprocess_function hp tok
     \<lparr>column_names = [''id'', ''target_text'', ''input_text''],
      data = map (\<lambda>(i, t, a). [i, JStr t, JStr a]) recs\<rparr>
   = Inr (map (\<lambda>(i, t, a).
        \<lparr>input_ids = input_ids (encode tok
            \<lparr>as_target = False, max_length = MAX_INPUT_LENGTH hp,
             truncation = True, padding = ''max_length''\<rparr> (prefix hp @ a)),
         attention_mask = attention_mask (encode tok
            \<lparr>as_target = False, max_length = MAX_INPUT_LENGTH hp,
             truncation = True, padding = ''max_length''\<rparr> (prefix hp @ a)),
         labels = input_ids (encode tok
            \<lparr>as_target = True, max_length = MAX_TARGET_LENGTH hp,
             truncation = True, padding = ''max_length''\<rparr> t)\<rparr>) recs)"
proof -
  have d: "map (\<lambda>(i, t, a). [i, JStr t, JStr a]) recs
      = map (\<lambda>(i, t, a). [i, t, a]) (map (\<lambda>(i, t, a). (i, JStr t, JStr a)) recs)"
    by (simp add: case_prod_unfold)
  have z: "zip (map f xs) (map g xs) = map (\<lambda>x. (f x, g x)) xs" for f :: "'x \<Rightarrow> 'y" and g :: "'x \<Rightarrow> 'z" and xs
    by (induction xs) auto
  show ?thesis
    unfolding d preprocess_function_def getitem_renamed
    by (simp add: list_all_iff case_prod_unfold Let_def z o_def)
qed

lemma preprocess_function_text_rows:
  "preprocess_function hp tok (text_rows recs) = Inr (map (tokenized_example hp tok) recs)"
  unfolding text_rows_def preprocess_function_strings
  by (simp add: tokenized_example_def [abs_def] Let_def)

lemma chunks_map: "chunks n (map g xs) = map (map g) (chunks n xs)"
proof (induction n xs rule: chunks.induct)
  case (1 n xs)
  show ?case
  proof (cases "n = 0 \<or> xs = []")
    case True
    then show ?thesis
      by (subst chunks.simps, subst (2) chunks.simps) auto
  next
    case False
    with 1 have "chunks n (map g (drop n xs)) = map (map g) (chunks n (drop n xs))"
      by simp
    with False show ?thesis
      by (subst chunks.simps, subst (2) chunks.simps) (simp add: take_map drop_map)
  qed
qed

lemma concat_chunks: "0 < n \<Longrightarrow> concat (chunks n xs) = xs"
proof (induction n xs rule: chunks.induct)
  case (1 n xs)
  show ?case
  proof (cases "xs = []")
    case True
    then show ?thesis by (simp add: chunks.simps [of n "[]"])
  next
    case False
    with 1 have "concat (chunks n (drop n xs)) = drop n xs" by simp
    with False 1 show ?thesis
      by (subst chunks.simps) simp
  qed
qed

lemma collect_Inr:
  "(\<And>b. b \<in> set bs \<Longrightarrow> f b = Inr (h b)) \<Longrightarrow> collect f bs = Inr (concat (map h bs))"
  by (induction bs) auto

lemma collect_map: "collect f (map g bs) = collect (\<lambda>b. f (g b)) bs"
  by (induction bs) (simp_all cong: sum.case_cong)

lemma map_batched_text_rows:
  "map_batched (preprocess_function hp tok) [''id'', ''input_text'', ''target_text'']
     (text_rows recs) = Inr (map (tokenized_example hp tok) recs)"
proof -
  let ?g = "\<lambda>(i, title, abstract). [i, JStr title, JStr abstract]"
  have cols: "list_all (\<lambda>c. c \<in> set (column_names (text_rows recs)))
      [''id'', ''input_text'', ''target_text'']"
    by (simp add: text_rows_def)
  have batch: "preprocess_function hp tok ((text_rows recs)\<lparr>data := map ?g c\<rparr>)
      = Inr (map (tokenized_example hp tok) c)" for c
    using preprocess_function_text_rows [of hp tok c] by (simp add: text_rows_def)
  have "collect (\<lambda>batch. preprocess_function hp tok ((text_rows recs)\<lparr>data := batch\<rparr>))
          (chunks 1000 (data (text_rows recs)))
      = collect (\<lambda>c. preprocess_function hp tok ((text_rows recs)\<lparr>data := map ?g c\<rparr>))
          (chunks 1000 recs)"
    by (simp add: text_rows_def chunks_map collect_map)
  also have "\<dots> = Inr (concat (map (map (tokenized_example hp tok)) (chunks 1000 recs)))"
    by (rule collect_Inr) (rule batch)
  also have "concat (map (map (tokenized_example hp tok)) (chunks 1000 recs))
      = map (tokenized_example hp tok) (concat (chunks 1000 recs))"
    by (simp add: map_concat)
  finally show ?thesis
    using cols by (simp add: map_batched_def concat_chunks)
qed






subsection \<open>The generation subset and the metric\<close>

lemma select_upt: "n \<le> length xs \<Longrightarrow> select [0..<n] xs = Inr (take n xs)"
  by (auto simp: select_def list_all_iff intro!: nth_equalityI)

lemma select_upt_Inr:
  assumes "select [0..<n] xs = Inr ys"
  shows "ys = take n xs" and "length ys = n"
proof -
  from assms have n: "n \<le> length xs"
    by (cases n) (auto simp: select_def list_all_iff split: if_splits)
  with assms show "ys = take n xs"
    by (simp add: select_upt)
  with n show "length ys = n"
    by simp
qed


lemma generation_dataset_eq:
  assumes "generation_dataset lib hp xs = Inr gen"
  shows "gen = to_tf_dataset hp False (take 200 (shuffle lib 42 xs))"
proof -
  from assms obtain ys where ys: "select [0..<200] (shuffle lib 42 xs) = Inr ys"
    and gen: "gen = to_tf_dataset hp False ys"
    by (auto simp: generation_dataset_def split: sum.splits)
  from select_upt_Inr [OF ys] gen show ?thesis
    by simp
qed

lemma notebook_requests:
  assumes "fst (notebook lib hp w) = Inr s"
  shows "fit_data (nb_fit s) = nb_train_dataset s"
    and "validation_data (nb_fit s) = nb_test_dataset s"
    and "\<exists>cb. callbacks (nb_fit s) = [cb] \<and> eval_dataset cb = nb_generation_dataset s"
    and "list_all (\<lambda>d. prefetch d = None \<and> num_workers d = None \<and> batch_size d = BATCH_SIZE hp)
           [nb_train_dataset s, nb_test_dataset s, nb_generation_dataset s]"
    and "workers (nb_fit s) = None"
    and "use_multiprocessing (nb_fit s) = None"
proof -
  from assms obtain w1 df
    where c: "later_cells lib hp df (process_settings w1) = (Inr s, snd (notebook lib hp w))"
    by (rule notebook_Inr)
  note l = later_cells_Inr [OF c]
  note g = generation_dataset_eq [OF l(4)]
  show "fit_data (nb_fit s) = nb_train_dataset s"
    and "validation_data (nb_fit s) = nb_test_dataset s"
    and "\<exists>cb. callbacks (nb_fit s) = [cb] \<and> eval_dataset cb = nb_generation_dataset s"
    and "workers (nb_fit s) = None"
    and "use_multiprocessing (nb_fit s) = None"
    using l by simp_all
  show "list_all (\<lambda>d. prefetch d = None \<and> num_workers d = None \<and> batch_size d = BATCH_SIZE hp)
           [nb_train_dataset s, nb_test_dataset s, nb_generation_dataset s]"
    using l(8,9) g by (simp add: to_tf_dataset_def)
qed


lemma metric_fn_eq:
  "metric_fn lib tok seen (preds, labs) =
     (case batch_decode tok True (clipped_preds tok preds) of
        Inl e \<Rightarrow> Inl e
      | Inr decoded_preds \<Rightarrow>
          (case batch_decode tok True (masked_labels tok labs) of
             Inl e \<Rightarrow> Inl e
           | Inr decoded_labels \<Rightarrow>
               Inr ([(''RougeL'',
                      f1_score (rouge_l lib (seen @ [(decoded_labels, decoded_preds)])))],
                    seen @ [(decoded_labels, decoded_preds)])))"
  by (simp add: metric_fn_def Let_def cong: sum.case_cong)

lemma astype_int64_id:
  "- (2 ^ 63) \<le> v \<Longrightarrow> v < 2 ^ 63 \<Longrightarrow> sint (word_of_int v :: 64 word) = v"
  by (simp add: sint_sbintrunc' signed_take_bit_int_eq_self)

lemma clipped_preds_eq:
  "clipped_preds tok preds =
     map (map (\<lambda>v. min (vocab_size tok - 1) (max (sint (word_of_int v :: 64 word)) 0)))
       (numpy preds)"
  by (simp add: clipped_preds_def np_clip_def astype_int64_def)

lemma clipped_preds_int64:
  assumes "0 < vocab_size tok"
    and "list_all (list_all (\<lambda>v. - (2 ^ 63) \<le> v \<and> v < 2 ^ 63)) (numpy preds)"
  shows "clipped_preds tok preds =
     map (map (\<lambda>v. if v < 0 then 0 else if vocab_size tok \<le> v then vocab_size tok - 1 else v))
       (numpy preds)"
proof -
  have "min (vocab_size tok - 1) (max (sint (word_of_int v :: 64 word)) 0)
      = (if v < 0 then 0 else if vocab_size tok \<le> v then vocab_size tok - 1 else v)"
    if "- (2 ^ 63) \<le> v \<and> v < 2 ^ 63" for v
    using that assms(1) by (simp add: astype_int64_id)
  with assms(2) show ?thesis
    unfolding clipped_preds_eq by (auto simp: list_all_iff)
qed

lemma clipped_preds_range:
  assumes "0 < vocab_size tok"
  shows "list_all (list_all (\<lambda>v. 0 \<le> v \<and> v \<le> vocab_size tok - 1)) (clipped_preds tok preds)"
  using assms by (auto simp: clipped_preds_eq list_all_iff)

lemma masked_labels_nonneg:
  "0 \<le> pad_token_id tok \<Longrightarrow> list_all (list_all (\<lambda>v. 0 \<le> v)) (masked_labels tok labs)"
  by (auto simp: masked_labels_def list_all_iff)

lemma masked_labels_id:
  assumes "list_all (list_all (\<lambda>v. 0 \<le> v)) (numpy labs)"
  shows "masked_labels tok labs = numpy labs"
proof -
  have row: "map (\<lambda>v. if v < 0 then pad_token_id tok else v) row = row"
    if "row \<in> set (numpy labs)" for row
    using assms that by (intro map_idI) (fastforce simp: list_all_iff)
  show ?thesis
    unfolding masked_labels_def by (rule map_idI) (rule row)
qed

lemma metric_fn_explicit:
  "metric_fn lib tok seen (preds, labs) =
     (case batch_decode tok True
             (map (map (\<lambda>v. min (vocab_size tok - 1) (max (sint (word_of_int v :: 64 word)) 0)))
                (numpy preds)) of
        Inl e \<Rightarrow> Inl e
      | Inr decoded_preds \<Rightarrow>
          (case batch_decode tok True
                  (map (map (\<lambda>v. if v < 0 then pad_token_id tok else v)) (numpy labs)) of
             Inl e \<Rightarrow> Inl e
           | Inr decoded_labels \<Rightarrow>
               Inr ([(''RougeL'',
                      f1_score (rouge_l lib (seen @ [(decoded_labels, decoded_preds)])))],
                    seen @ [(decoded_labels, decoded_preds)])))"
  by (simp add: metric_fn_eq clipped_preds_eq masked_labels_def cong: sum.case_cong)

lemma metric_fn_total:
  assumes "0 < vocab_size tok" and "0 \<le> pad_token_id tok"
    and "pad_token_id tok < vocab_size tok"
    and dec: "\<forall>idss. list_all (list_all (\<lambda>v. 0 \<le> v \<and> v \<le> vocab_size tok - 1)) idss
            \<longrightarrow> (\<exists>texts. batch_decode tok True idss = Inr texts)"
    and "list_all (list_all (\<lambda>v. v < vocab_size tok)) (numpy labs)"
  shows "\<exists>score seen'. metric_fn lib tok seen (preds, labs) = Inr ([(''RougeL'', score)], seen')"
proof -
  from dec clipped_preds_range [OF assms(1)]
  obtain dp where dp: "batch_decode tok True (clipped_preds tok preds) = Inr dp"
    by blast
  have "list_all (list_all (\<lambda>v. 0 \<le> v \<and> v \<le> vocab_size tok - 1)) (masked_labels tok labs)"
    using assms(2,3,5) by (fastforce simp: masked_labels_def list_all_iff)
  with dec obtain dl where dl: "batch_decode tok True (masked_labels tok labs) = Inr dl"
    by blast
  show ?thesis
    by (simp add: metric_fn_eq dp dl)
qed


subsection \<open>The sample files and the sample runs\<close>

lemma fs_sample_world: "fs (sample_world ls) snapshot_path = Some ls"
  by (simp add: sample_world_def)

lemma strip_samples:
  "strip line_full \<noteq> []" "strip line_no_abstract \<noteq> []" "strip line_null_title \<noteq> []"
  "strip line_cut \<noteq> []" "strip line_blank = []"
  by (simp_all add: strip_def isspace_def line_full_def line_no_abstract_def line_null_title_def
      line_cut_def line_blank_def)

lemma sample_loads_samples:
  "sample_loads line_full = Some record_full"
  "sample_loads line_no_abstract = Some record_no_abstract"
  "sample_loads line_null_title = Some record_null_title"
  "sample_loads line_cut = None"
  by (simp_all add: sample_loads_def line_full_def line_no_abstract_def line_null_title_def
      line_cut_def)

lemma complete_samples:
  "complete record_full" "\<not> complete record_no_abstract" "\<not> complete record_null_title"
  by (simp_all add: complete_def wanted_def cell_def record_full_def record_no_abstract_def
      record_null_title_def)

lemma keys_samples:
  "keys record_full = [''id'', ''authors'', ''title'', ''abstract'']"
  "keys record_no_abstract = [''id'', ''title'']"
  "keys record_null_title = [''id'', ''title'', ''abstract'']"
  by (simp_all add: keys_def record_full_def record_no_abstract_def record_null_title_def)

lemma is_obj_samples:
  "is_obj record_full" "is_obj record_no_abstract" "is_obj record_null_title"
  by (simp_all add: record_full_def record_no_abstract_def record_null_title_def)

lemma text_fields_samples:
  "text_fields record_full" "text_fields record_no_abstract" "text_fields record_null_title"
  by (simp_all add: text_fields_def wanted_def cell_def record_full_def
      record_no_abstract_def record_null_title_def)

lemma incomplete_line_samples:
  "\<not> incomplete_line sample_loads line_full"
  "incomplete_line sample_loads line_no_abstract"
  "incomplete_line sample_loads line_null_title"
  by (simp_all add: incomplete_line_def sample_loads_samples complete_samples)

lemma N_pos: "0 < N" "Suc 0 < N" "Suc (Suc 0) < N" "Suc (Suc (Suc 0)) < N"
  by (simp_all add: N_def)

lemma consumed_Cons_small:
  "length ls < N \<Longrightarrow> consumed ls = filter (\<lambda>l. strip l \<noteq> []) ls"
  by (simp add: consumed_def)

lemma those_replicate: "those (replicate n (Some x)) = Some (replicate n x)"
  by (induction n) auto

lemma filter_replicate_if: "filter P (replicate n x) = (if P x then replicate n x else [])"
  by (induction n) auto

lemma load_replicate_full:
  "fst (load_cell sample_loads (sample_world (replicate N line_full @ ls)))
     = Inr (frame_of (replicate N record_full))"
proof -
  have c: "consumed (replicate N line_full @ ls) = replicate N line_full"
    by (simp add: consumed_def filter_replicate_if strip_samples)
  have k: "list_all (\<lambda>c. list_ex (\<lambda>r. c \<in> set (keys r)) (replicate N record_full)) wanted"
    by (simp add: wanted_def list_ex_iff keys_samples N_def)
  have o: "list_all is_obj (replicate N record_full)"
    by (simp add: list_all_iff is_obj_samples)
  show ?thesis
    using k o
    by (simp add: load_cell_eq fs_sample_world c sample_loads_samples those_replicate
        build_df_eq filter_replicate_if complete_samples)
qed

lemma load_blank_inside:
  "fst (load_cell sample_loads
          (sample_world (replicate 199999 line_full @ [line_blank, line_full])))
     = Inr (frame_of (replicate 199999 record_full))"
proof -
  have c: "consumed (replicate 199999 line_full @ [line_blank, line_full])
      = replicate 199999 line_full"
    by (simp add: consumed_def N_def filter_replicate_if strip_samples)
  have k: "list_all (\<lambda>c. list_ex (\<lambda>r. c \<in> set (keys r)) (replicate 199999 record_full)) wanted"
    by (simp add: wanted_def list_ex_iff keys_samples)
  have o: "list_all is_obj (replicate 199999 record_full)"
    by (simp add: list_all_iff is_obj_samples)
  show ?thesis
    using k o
    by (simp add: load_cell_eq fs_sample_world c sample_loads_samples those_replicate
        build_df_eq filter_replicate_if complete_samples)
qed

lemma sample_tokenizer_fields:
  "vocab_size sample_tokenizer = 32100" "pad_token_id sample_tokenizer = 0"
  "encode sample_tokenizer = sample_encode" "batch_decode sample_tokenizer = sample_decode"
  by (simp_all add: sample_tokenizer_def)


lemma sample_library_fields:
  "run_imports sample_library = sample_imports"
  "json_loads sample_library = sample_loads"
  "train_test_split sample_library = sample_split"
  "shuffle sample_library = (\<lambda>seed. rev)"
  "tokenizer_from_pretrained sample_library = (\<lambda>name w. (Inr sample_tokenizer, w))"
  "model_from_pretrained sample_library
     = (\<lambda>name w. (Inr \<lparr>checkpoint = name, optimizer = None\<rparr>, w))"
  "rouge_l sample_library = sample_rouge"
  by (simp_all add: sample_library_def)

lemma hub_library_fields:
  "run_imports hub_library = sample_imports"
  "json_loads hub_library = sample_loads"
  "train_test_split hub_library = sample_split"
  "shuffle hub_library = (\<lambda>seed. rev)"
  "tokenizer_from_pretrained hub_library = hub_tokenizer"
  "model_from_pretrained hub_library = hub_model"
  by (simp_all add: hub_library_def sample_library_def)

lemma sample_imports_eq:
  "sample_imports w = (Inr (), w\<lparr>env := (env w)(''TF2_BEHAVIOR'' \<mapsto> ''1'')\<rparr>)"
  by (simp add: sample_imports_def)

lemma sample_world_paths:
  "fs (sample_world ls) ''t5-small/tokenizer.json'' = None"
  "fs (sample_world ls) ''t5-small/config.json'' = None"
  "fs (sample_world ls) (hub_cache ''t5-small'') = None"
  by (simp_all add: sample_world_def snapshot_path_def hub_cache_def)

lemma cells_record_full:
  "[cell record_full ''id'', cell record_full ''title'', cell record_full ''abstract'']
     = (\<lambda>(i, title, abstract). [i, JStr title, JStr abstract]) sample_text"
  by (simp add: cell_def record_full_def sample_text_def)

lemma load_sample_snapshot:
  assumes "fs w snapshot_path = Some sample_snapshot"
  shows "fst (load_cell sample_loads w) = Inr (frame_of (replicate 2000 record_full))"
proof -
  have c: "consumed sample_snapshot = replicate 2000 line_full"
    by (simp add: consumed_def sample_snapshot_def N_def filter_replicate_if strip_samples)
  have k: "list_all (\<lambda>c. list_ex (\<lambda>r. c \<in> set (keys r)) (replicate 2000 record_full)) wanted"
    by (simp add: wanted_def list_ex_iff keys_samples)
  have o: "list_all is_obj (replicate 2000 record_full)"
    by (simp add: list_all_iff is_obj_samples)
  show ?thesis
    using k o assms
    by (simp add: load_cell_eq c sample_loads_samples
        those_replicate build_df_eq filter_replicate_if complete_samples)
qed

lemma sample_split_text_rows:
  "sample_split (TRAIN_TEST_SPLIT constants) 42 (text_rows (replicate 2000 sample_text))
     = Inr (text_rows (replicate 1800 sample_text), text_rows (replicate 200 sample_text))"
  by (simp add: sample_split_def text_rows_def constants_def Let_def)

lemma build_sample:
  assumes "train_test_split lib = sample_split"
  shows "build_cell lib constants (frame_of (replicate 2000 record_full))
     = Inr (text_rows (replicate 1800 sample_text), text_rows (replicate 200 sample_text))"
proof -
  have "\<lparr>column_names = [''id'', ''target_text'', ''input_text''],
        data = map (\<lambda>r. [cell r ''id'', cell r ''title'', cell r ''abstract''])
                 (replicate 2000 record_full)\<rparr>
      = text_rows (replicate 2000 sample_text)"
    by (simp add: text_rows_def cells_record_full)
  then show ?thesis
    by (simp add: build_cell_frame_of assms sample_split_text_rows)
qed

lemma tokenize_sample:
  "tokenize_cell constants tok
     (text_rows (replicate 1800 sample_text), text_rows (replicate 200 sample_text))
   = Inr (replicate 1800 (tokenized_example constants tok sample_text),
          replicate 200 (tokenized_example constants tok sample_text))"
  by (simp add: tokenize_cell_def map_batched_text_rows)

lemma generation_sample:
  assumes "shuffle lib = (\<lambda>seed. rev)"
  shows "generation_dataset lib hp (replicate 200 x)
     = Inr (to_tf_dataset hp False (replicate 200 x))"
  by (simp add: generation_dataset_def assms select_upt)

lemma later_cells_sample:
  assumes "train_test_split lib = sample_split" and "shuffle lib = (\<lambda>seed. rev)"
    and "tokenizer_from_pretrained lib (MODEL_CHECKPOINT constants) w = (Inr tok, wa)"
    and "model_from_pretrained lib (MODEL_CHECKPOINT constants) wa = (Inr m, wb)"
  shows "\<exists>s. later_cells lib constants (frame_of (replicate 2000 record_full)) w = (Inr s, wb)
           \<and> nb_tokenizer s = tok"
  by (simp add: later_cells_def build_sample [OF assms(1)] assms(3,4) tokenize_sample
      generation_sample [OF assms(2)] Let_def)

lemma notebook_sample:
  assumes "run_imports lib w = (Inr (), wa)"
    and "fs wa snapshot_path = Some sample_snapshot"
    and "json_loads lib = sample_loads"
    and "train_test_split lib = sample_split" and "shuffle lib = (\<lambda>seed. rev)"
    and "tokenizer_from_pretrained lib (MODEL_CHECKPOINT constants) (process_settings wa)
           = (Inr tok, wb)"
    and "model_from_pretrained lib (MODEL_CHECKPOINT constants) wb = (Inr m, wc)"
  shows "\<exists>s. notebook lib constants w = (Inr s, wc) \<and> nb_tokenizer s = tok"
proof -
  have "fst (load_cell (json_loads lib) (process_settings wa))
      = Inr (frame_of (replicate 2000 record_full))"
    unfolding assms(3)
    by (rule load_sample_snapshot) (simp add: fs_process_settings assms(2))
  with later_cells_sample [OF assms(4-7)] show ?thesis
    by (simp add: notebook_cases setup_cell_imports [OF assms(1)])
qed

lemma sample_run_world:
  assumes "fs w snapshot_path = Some sample_snapshot"
  shows "\<exists>s. notebook sample_library constants w
           = (Inr s, process_settings (w\<lparr>env := (env w)(''TF2_BEHAVIOR'' \<mapsto> ''1'')\<rparr>))
         \<and> nb_tokenizer s = sample_tokenizer"
  by (rule notebook_sample [where wa = "w\<lparr>env := (env w)(''TF2_BEHAVIOR'' \<mapsto> ''1'')\<rparr>"])
     (simp_all add: sample_library_fields sample_imports_eq assms)

lemma sample_run:
  "\<exists>s. fst (notebook sample_library constants (sample_world sample_snapshot)) = Inr s"
  using sample_run_world [OF fs_sample_world] by auto


lemma hub_run:
  assumes "fs w snapshot_path = Some sample_snapshot"
    and "fs w ''t5-small/tokenizer.json'' = None"
    and "fs w ''t5-small/config.json'' = None"
    and "fs w (hub_cache ''t5-small'') = None"
  shows "\<exists>s. notebook hub_library constants w
           = (Inr s, (process_settings (w\<lparr>env := (env w)(''TF2_BEHAVIOR'' \<mapsto> ''1'')\<rparr>))
                       \<lparr>fs := (fs w)(hub_cache ''t5-small'' \<mapsto> [''t5-small''])\<rparr>)
         \<and> nb_tokenizer s = sample_tokenizer"
proof -
  let ?wa = "w\<lparr>env := (env w)(''TF2_BEHAVIOR'' \<mapsto> ''1'')\<rparr>"
  let ?wb = "(process_settings ?wa)\<lparr>fs := (fs w)(hub_cache ''t5-small'' \<mapsto> [''t5-small''])\<rparr>"
  have c: "hub_cache ''t5-small'' \<noteq> ''t5-small/config.json''"
    by (simp add: hub_cache_def)
  show ?thesis
  proof (rule notebook_sample [where wa = ?wa and wb = ?wb])
    show "tokenizer_from_pretrained hub_library (MODEL_CHECKPOINT constants)
            (process_settings ?wa) = (Inr sample_tokenizer, ?wb)"
      using assms
      by (simp add: hub_library_fields constants_def hub_tokenizer_def fs_process_settings)
    show "model_from_pretrained hub_library (MODEL_CHECKPOINT constants) ?wb
            = (Inr \<lparr>checkpoint = ''t5-small'', optimizer = None\<rparr>, ?wb)"
      using assms c
      by (simp add: hub_library_fields constants_def hub_model_def)
  qed (simp_all add: hub_library_fields sample_imports_eq assms)
qed

lemma hub_run_local:
  assumes "fs w snapshot_path = Some sample_snapshot"
    and "fs w ''t5-small/tokenizer.json'' = Some ls"
    and "fs w ''t5-small/config.json'' = Some cs"
  shows "\<exists>s. notebook hub_library constants w
           = (Inr s, process_settings (w\<lparr>env := (env w)(''TF2_BEHAVIOR'' \<mapsto> ''1'')\<rparr>))
         \<and> nb_tokenizer s = sample_tokenizer\<lparr>vocab_size := int (length ls)\<rparr>"
proof -
  let ?wa = "w\<lparr>env := (env w)(''TF2_BEHAVIOR'' \<mapsto> ''1'')\<rparr>"
  show ?thesis
  proof (rule notebook_sample [where wa = ?wa and wb = "process_settings ?wa"])
    show "tokenizer_from_pretrained hub_library (MODEL_CHECKPOINT constants)
            (process_settings ?wa)
          = (Inr (sample_tokenizer\<lparr>vocab_size := int (length ls)\<rparr>), process_settings ?wa)"
      using assms
      by (simp add: hub_library_fields constants_def hub_tokenizer_def fs_process_settings)
    show "model_from_pretrained hub_library (MODEL_CHECKPOINT constants) (process_settings ?wa)
            = (Inr \<lparr>checkpoint = ''t5-small'', optimizer = None\<rparr>, process_settings ?wa)"
      using assms
      by (simp add: hub_library_fields constants_def hub_model_def fs_process_settings)
  qed (simp_all add: hub_library_fields sample_imports_eq assms)
qed

subsection \<open>Loading failures (C1)\<close>

text \<open>
  C1 says that a malformed line and a record that lacks a field are both handled by
  excluding the row, the load completing. On the code a line that is not JSON ends the
  cell with \<^verbatim>\<open>JSONDecodeError\<close>, and a field that no record has ends it with
  \<^verbatim>\<open>KeyError\<close>: the file made of a full record and a cut one, and the file made of
  one record without an abstract.
\<close>

theorem load_cell_malformed_counterexample:
  "fst (load_cell sample_loads (sample_world [line_full, line_cut])) = Inl JSONDecodeError
   \<and> fst (load_cell sample_loads (sample_world [line_no_abstract])) = Inl KeyError"
  by (simp add: load_cell_eq fs_sample_world consumed_Cons_small N_pos strip_samples
      sample_loads_samples build_df_eq is_obj_samples keys_samples wanted_def)

text \<open>
  C1, amended. For a snapshot that exists: when one of the non-blank lines among the first
  200,000 is not JSON the cell ends with \<^verbatim>\<open>JSONDecodeError\<close>. When all of them decode
  to objects, the cell completes exactly if each of the three fields occurs in at least
  one record; the frame then holds the complete records, every record that lacks a field
  or holds \<^verbatim>\<open>null\<close> or NaN in one being dropped. Otherwise it raises \<^verbatim>\<open>KeyError\<close>.
\<close>

theorem load_cell_outcomes:
  assumes "fs w snapshot_path = Some ls"
  shows "(list_ex (\<lambda>l. loads l = None) (consumed ls) \<longrightarrow>
            fst (load_cell loads w) = Inl JSONDecodeError)
       \<and> (map loads (consumed ls) = map Some records \<longrightarrow>
            list_all is_obj records \<longrightarrow>
            fst (load_cell loads w) =
              (if list_all (\<lambda>c. list_ex (\<lambda>r. c \<in> set (keys r)) records) wanted
               then Inr (frame_of (filter complete records))
               else Inl KeyError))"
proof (intro conjI impI)
  assume "list_ex (\<lambda>l. loads l = None) (consumed ls)"
  then obtain l where l: "l \<in> set (consumed ls)" "loads l = None"
    by (auto simp: list_ex_iff)
  have "\<not> (\<exists>rs. map loads (consumed ls) = map Some rs)"
  proof
    assume "\<exists>rs. map loads (consumed ls) = map Some rs"
    then obtain rs where "map loads (consumed ls) = map Some rs" ..
    then have "set (map loads (consumed ls)) = set (map Some rs)" by simp
    moreover have "None \<in> set (map loads (consumed ls))"
      using l by force
    ultimately show False by auto
  qed
  then have "those (map loads (consumed ls)) = None"
    by (cases "those (map loads (consumed ls))") (auto simp: those_eq_Some)
  then show "fst (load_cell loads w) = Inl JSONDecodeError"
    using assms by (simp add: load_cell_eq)
next
  assume "map loads (consumed ls) = map Some records" and "list_all is_obj records"
  then show "fst (load_cell loads w) =
              (if list_all (\<lambda>c. list_ex (\<lambda>r. c \<in> set (keys r)) records) wanted
               then Inr (frame_of (filter complete records))
               else Inl KeyError)"
    using assms by (simp add: load_cell_eq those_map_Some build_df_eq)
qed

theorem load_cell_outcomes_witness:
  "fst (load_cell sample_loads (sample_world [line_blank, line_cut, line_full]))
     = Inl JSONDecodeError
   \<and> fst (load_cell sample_loads
            (sample_world [line_full, line_blank, line_no_abstract, line_null_title]))
     = Inr (frame_of [record_full])"
proof -
  let ?a = "[line_blank, line_cut, line_full]"
  let ?b = "[line_full, line_blank, line_no_abstract, line_null_title]"
  let ?rs = "[record_full, record_no_abstract, record_null_title]"
  have a: "list_ex (\<lambda>l. sample_loads l = None) (consumed ?a)"
    by (simp add: consumed_Cons_small N_def strip_samples sample_loads_samples)
  have b: "map sample_loads (consumed ?b) = map Some ?rs"
    by (simp add: consumed_Cons_small N_def strip_samples sample_loads_samples)
  have o: "list_all is_obj ?rs"
    by (simp add: is_obj_samples)
  have k: "list_all (\<lambda>c. list_ex (\<lambda>r. c \<in> set (keys r)) ?rs) wanted"
    by (simp add: wanted_def keys_samples)
  from load_cell_outcomes [OF fs_sample_world, of sample_loads ?a] a
  have "fst (load_cell sample_loads (sample_world ?a)) = Inl JSONDecodeError"
    by blast
  moreover from load_cell_outcomes [OF fs_sample_world, of sample_loads ?b ?rs] b o k
  have "fst (load_cell sample_loads (sample_world ?b)) = Inr (frame_of [record_full])"
    by (simp add: complete_samples)
  ultimately show ?thesis by simp
qed

subsection \<open>What the loading cell reads and builds (C2)\<close>

text \<open>
  C2 says that the snapshot is the only external input of the program. The two
  \<^verbatim>\<open>from_pretrained\<close> calls look the checkpoint \<^verbatim>\<open>t5-small\<close> up in the file system,
  a local directory of that name first. With the library of the examples that does so,
  two worlds that hold the same snapshot, the second with a local directory
  \<^verbatim>\<open>t5-small\<close>, give two runs that complete with different tokenizers.
\<close>

theorem pretrained_checkpoint_counterexample:
  "fs ((sample_world sample_snapshot)
         \<lparr>fs := (fs (sample_world sample_snapshot))
                  (''t5-small/tokenizer.json'' \<mapsto> [''{}''],
                   ''t5-small/config.json'' \<mapsto> [''{}''])\<rparr>) snapshot_path
     = fs (sample_world sample_snapshot) snapshot_path
   \<and> (\<exists>s s'. fst (notebook hub_library constants (sample_world sample_snapshot)) = Inr s
         \<and> fst (notebook hub_library constants
                  ((sample_world sample_snapshot)
                     \<lparr>fs := (fs (sample_world sample_snapshot))
                              (''t5-small/tokenizer.json'' \<mapsto> [''{}''],
                               ''t5-small/config.json'' \<mapsto> [''{}''])\<rparr>)) = Inr s'
         \<and> vocab_size (nb_tokenizer s) = 32100
         \<and> vocab_size (nb_tokenizer s') = 1)"
proof -
  let ?w = "sample_world sample_snapshot"
  let ?w' = "?w\<lparr>fs := (fs ?w)(''t5-small/tokenizer.json'' \<mapsto> [''{}''],
                              ''t5-small/config.json'' \<mapsto> [''{}''])\<rparr>"
  have p: "fs ?w' snapshot_path = Some sample_snapshot"
    by (simp add: sample_world_def snapshot_path_def)
  from hub_run [OF fs_sample_world sample_world_paths] obtain s
    where s: "fst (notebook hub_library constants ?w) = Inr s"
      "nb_tokenizer s = sample_tokenizer"
    by auto
  have "\<exists>s. notebook hub_library constants ?w'
           = (Inr s, process_settings (?w'\<lparr>env := (env ?w')(''TF2_BEHAVIOR'' \<mapsto> ''1'')\<rparr>))
         \<and> nb_tokenizer s = sample_tokenizer\<lparr>vocab_size := int (length [''{}''])\<rparr>"
    by (rule hub_run_local [OF p]) simp_all
  then obtain s' where s': "fst (notebook hub_library constants ?w') = Inr s'"
    "nb_tokenizer s' = sample_tokenizer\<lparr>vocab_size := int (length [''{}''])\<rparr>"
    by auto
  from s s' p show ?thesis
    by (auto simp: sample_tokenizer_fields fs_sample_world)
qed

text \<open>
  C2, amended. The snapshot is the only file the notebook's own code reads: the loading
  cell gives the same result in two worlds that agree on that file. When the file
  exists, every non-blank line among its first 200,000 decodes to an object and each of
  the three fields occurs in some record, the cell completes. When the cell completes,
  the file exists, each of those lines was decoded as a record of its own, and the frame
  has the columns \<^verbatim>\<open>id\<close>, \<^verbatim>\<open>title\<close>, \<^verbatim>\<open>abstract\<close>, the index \<open>0..n-1\<close> and \<open>n\<close>
  rows, \<open>n\<close> being the number of complete records; every row has three cells, none of
  them missing; and when the three fields of every record are strings where they are
  present, the rows are the three cells of the complete records as decoded, in file
  order. The frame a completed run holds is the one the loading cell gives in the world
  the imports left.
\<close>

theorem load_cell_frame:
  "(fs w' snapshot_path = fs w snapshot_path \<longrightarrow>
      fst (load_cell loads w') = fst (load_cell loads w))
   \<and> (fs w snapshot_path = Some ls \<longrightarrow>
        map loads (filter (\<lambda>l. strip l \<noteq> []) (take 200000 ls)) = map Some records \<longrightarrow>
        list_all is_obj records \<longrightarrow>
        list_all (\<lambda>c. list_ex (\<lambda>r. c \<in> set (keys r)) records)
          [''id'', ''title'', ''abstract''] \<longrightarrow>
        (\<exists>df. fst (load_cell loads w) = Inr df))
   \<and> (fst (load_cell loads w) = Inr df \<longrightarrow>
        (\<exists>ls records.
           fs w snapshot_path = Some ls
           \<and> map loads (filter (\<lambda>l. strip l \<noteq> []) (take 200000 ls)) = map Some records
           \<and> columns df = [''id'', ''title'', ''abstract'']
           \<and> index df = [0..<length (filter complete records)]
           \<and> length (rows df) = length (filter complete records)
           \<and> list_all (\<lambda>row. length row = 3 \<and> \<not> list_ex isna row) (rows df)
           \<and> (list_all text_fields records \<longrightarrow>
                rows df = map (\<lambda>r. [cell r ''id'', cell r ''title'', cell r ''abstract''])
                            (filter complete records))))
   \<and> (fst (notebook lib hp w) = Inr s \<longrightarrow>
        fst (load_cell (json_loads lib) (snd (run_imports lib w))) = Inr (nb_df s))"
proof (intro conjI impI)
  assume "fs w' snapshot_path = fs w snapshot_path"
  then show "fst (load_cell loads w') = fst (load_cell loads w)"
    by (rule load_cell_same_snapshot)
next
  assume "fs w snapshot_path = Some ls"
    and "map loads (filter (\<lambda>l. strip l \<noteq> []) (take 200000 ls)) = map Some records"
    and "list_all is_obj records"
    and "list_all (\<lambda>c. list_ex (\<lambda>r. c \<in> set (keys r)) records)
          [''id'', ''title'', ''abstract'']"
  then show "\<exists>df. fst (load_cell loads w) = Inr df"
    by (simp add: load_cell_eq consumed_explicit those_map_Some build_df_eq wanted_def)
next
  assume "fst (load_cell loads w) = Inr df"
  then obtain ls records where ls: "fs w snapshot_path = Some ls"
    and recs: "map loads (consumed ls) = map Some records"
    and df: "df = frame_of (filter complete records)"
    by (rule load_cell_Inr)
  from df have "columns df = [''id'', ''title'', ''abstract'']"
    and "index df = [0..<length (filter complete records)]"
    and "length (rows df) = length (filter complete records)"
    and "rows df = map (\<lambda>r. [cell r ''id'', cell r ''title'', cell r ''abstract''])
                     (filter complete records)"
    by (simp_all add: frame_of_def wanted_def)
  moreover have "list_all (\<lambda>row. length row = 3 \<and> \<not> list_ex isna row) (rows df)"
    unfolding df by (rule rows_frame_of_complete)
  ultimately show "\<exists>ls records.
           fs w snapshot_path = Some ls
           \<and> map loads (filter (\<lambda>l. strip l \<noteq> []) (take 200000 ls)) = map Some records
           \<and> columns df = [''id'', ''title'', ''abstract'']
           \<and> index df = [0..<length (filter complete records)]
           \<and> length (rows df) = length (filter complete records)
           \<and> list_all (\<lambda>row. length row = 3 \<and> \<not> list_ex isna row) (rows df)
           \<and> (list_all text_fields records \<longrightarrow>
                rows df = map (\<lambda>r. [cell r ''id'', cell r ''title'', cell r ''abstract''])
                            (filter complete records))"
    using ls recs unfolding consumed_explicit by blast
next
  assume "fst (notebook lib hp w) = Inr s"
  then show "fst (load_cell (json_loads lib) (snd (run_imports lib w))) = Inr (nb_df s)"
    by (rule notebook_frame)
qed

theorem load_cell_frame_witness:
  "fst (load_cell sample_loads
          ((sample_world [line_full, line_blank, line_no_abstract, line_null_title])
             \<lparr>fs := (fs (sample_world [line_full, line_blank, line_no_abstract, line_null_title]))
                      (''notes.txt'' \<mapsto> [''x'']),
               env := [''HOME'' \<mapsto> ''/root'']\<rparr>))
     = fst (load_cell sample_loads
              (sample_world [line_full, line_blank, line_no_abstract, line_null_title]))
   \<and> fst (load_cell sample_loads
            (sample_world [line_full, line_blank, line_no_abstract, line_null_title]))
     = Inr \<lparr>columns = [''id'', ''title'', ''abstract''], index = [0],
            rows = [[JStr ''0704.0001'', JStr ''Diphoton production'',
                     JStr ''A calculation.'']]\<rparr>
   \<and> (\<exists>s. fst (notebook sample_library constants (sample_world sample_snapshot)) = Inr s
          \<and> fst (load_cell sample_loads (snd (sample_imports (sample_world sample_snapshot))))
              = Inr (nb_df s)
          \<and> len_df (nb_df s) = 2000)"
proof -
  let ?b = "[line_full, line_blank, line_no_abstract, line_null_title]"
  let ?rs = "[record_full, record_no_abstract, record_null_title]"
  let ?w = "sample_world ?b"
  let ?w' = "?w\<lparr>fs := (fs ?w)(''notes.txt'' \<mapsto> [''x'']), env := [''HOME'' \<mapsto> ''/root'']\<rparr>"
  have p: "fs ?w' snapshot_path = fs ?w snapshot_path"
    by (simp add: snapshot_path_def)
  have b: "map sample_loads (filter (\<lambda>l. strip l \<noteq> []) (take 200000 ?b)) = map Some ?rs"
    by (simp add: strip_samples sample_loads_samples)
  have o: "list_all is_obj ?rs"
    by (simp add: is_obj_samples)
  have k: "list_all (\<lambda>c. list_ex (\<lambda>r. c \<in> set (keys r)) ?rs) [''id'', ''title'', ''abstract'']"
    by (simp add: keys_samples)
  have t: "list_all text_fields ?rs"
    by (simp add: text_fields_samples)
  have 1: "fst (load_cell sample_loads ?w') = fst (load_cell sample_loads ?w)"
    using load_cell_frame [where w' = ?w' and w = ?w and loads = sample_loads] p by blast
  from load_cell_frame [where w = ?w and loads = sample_loads and ls = ?b and records = ?rs]
    fs_sample_world [of ?b] b o k
  obtain df where df: "fst (load_cell sample_loads ?w) = Inr df"
    by blast
  with load_cell_frame [where w = ?w and loads = sample_loads and df = df]
  obtain ls records where ls: "fs ?w snapshot_path = Some ls"
    and recs: "map sample_loads (filter (\<lambda>l. strip l \<noteq> []) (take 200000 ls)) = map Some records"
    and c: "columns df = [''id'', ''title'', ''abstract'']"
    and i: "index df = [0..<length (filter complete records)]"
    and r: "list_all text_fields records \<longrightarrow>
              rows df = map (\<lambda>r. [cell r ''id'', cell r ''title'', cell r ''abstract''])
                          (filter complete records)"
    by blast
  from ls have ls_eq: "ls = ?b"
    by (simp add: fs_sample_world)
  from recs
  have "map Some records = map sample_loads (filter (\<lambda>l. strip l \<noteq> []) (take 200000 ?b))"
    unfolding ls_eq by (rule sym)
  also note b
  finally have "records = ?rs"
    by (rule map_injective) simp
  with c i r t have "columns df = [''id'', ''title'', ''abstract'']" and "index df = [0]"
    and "rows df = [[JStr ''0704.0001'', JStr ''Diphoton production'', JStr ''A calculation.'']]"
    by (simp_all add: complete_samples cells_record_full sample_text_def)
  then have 2: "df = \<lparr>columns = [''id'', ''title'', ''abstract''], index = [0],
            rows = [[JStr ''0704.0001'', JStr ''Diphoton production'',
                     JStr ''A calculation.'']]\<rparr>"
    by (cases df) simp
  from sample_run_world [OF fs_sample_world] obtain s
    where s: "fst (notebook sample_library constants (sample_world sample_snapshot)) = Inr s"
    by auto
  from load_cell_frame [where w = "sample_world sample_snapshot" and lib = sample_library
      and hp = constants and s = s] s
  have l: "fst (load_cell sample_loads (snd (sample_imports (sample_world sample_snapshot))))
      = Inr (nb_df s)"
    by (simp add: sample_library_fields)
  have "fst (load_cell sample_loads (snd (sample_imports (sample_world sample_snapshot))))
      = Inr (frame_of (replicate 2000 record_full))"
    by (rule load_sample_snapshot) (simp add: sample_imports_eq fs_sample_world)
  with l have "nb_df s = frame_of (replicate 2000 record_full)"
    by simp
  then have "len_df (nb_df s) = 2000"
    by (simp add: len_df_def frame_of_def)
  with 1 df 2 s l show ?thesis
    by blast
qed

subsection \<open>The metric callback (C3)\<close>



subsection \<open>Abstract in, title out (C5)\<close>



subsection \<open>The file system (C6)\<close>

text \<open>
  C6 says that no operation of a run writes a file. \<^verbatim>\<open>from_pretrained\<close> stores a
  checkpoint it had to fetch in the hub cache. With the library of the examples that
  does so, a run in a world that holds the snapshot and nothing else completes and
  leaves an entry for \<^verbatim>\<open>t5-small\<close> in the cache.
\<close>

theorem hub_cache_written_counterexample:
  "(\<exists>s. fst (notebook hub_library constants (sample_world sample_snapshot)) = Inr s)
   \<and> fs (sample_world sample_snapshot) (hub_cache ''t5-small'') = None
   \<and> fs (snd (notebook hub_library constants (sample_world sample_snapshot)))
        (hub_cache ''t5-small'') = Some [''t5-small'']"
proof -
  from hub_run [OF fs_sample_world sample_world_paths] obtain s
    where "notebook hub_library constants (sample_world sample_snapshot)
         = (Inr s, (process_settings ((sample_world sample_snapshot)
               \<lparr>env := (env (sample_world sample_snapshot))(''TF2_BEHAVIOR'' \<mapsto> ''1'')\<rparr>))
             \<lparr>fs := (fs (sample_world sample_snapshot))
                      (hub_cache ''t5-small'' \<mapsto> [''t5-small''])\<rparr>)"
    by auto
  then show ?thesis
    by (simp add: sample_world_paths)
qed

text \<open>
  C6, amended. The notebook's own code opens one file, the snapshot, for reading: the
  loading cell returns the world as it found it, and its result does not change when
  another file is changed, added or removed. A run changes files only through the
  library calls that take the world, the imports and the two \<^verbatim>\<open>from_pretrained\<close>
  calls: a path that none of them changes holds after the run what it held before,
  whether the run completes or not. A missing snapshot is not created: when the first
  cell has completed and there is no snapshot, the run ends with
  \<^verbatim>\<open>FileNotFoundError\<close> in the world the first cell left.
\<close>

theorem filesystem_after_run:
  "snd (load_cell loads w) = w
   \<and> (path \<noteq> snapshot_path \<longrightarrow>
        fst (load_cell loads (w\<lparr>fs := (fs w)(path := content)\<rparr>)) = fst (load_cell loads w))
   \<and> ((\<forall>v. fs (snd (run_imports lib v)) p = fs v p)
        \<and> (\<forall>name v. fs (snd (tokenizer_from_pretrained lib name v)) p = fs v p)
        \<and> (\<forall>name v. fs (snd (model_from_pretrained lib name v)) p = fs v p)
        \<longrightarrow> fs (snd (notebook lib hp w)) p = fs w p)
   \<and> (fst (setup_cell lib w) = Inr () \<longrightarrow> fs (snd (setup_cell lib w)) snapshot_path = None \<longrightarrow>
        notebook lib hp w = (Inl FileNotFoundError, snd (setup_cell lib w)))"
proof (intro conjI impI)
  show "snd (load_cell loads w) = w"
    by (rule load_cell_world)
next
  assume "path \<noteq> snapshot_path"
  then show "fst (load_cell loads (w\<lparr>fs := (fs w)(path := content)\<rparr>)) = fst (load_cell loads w)"
    by (intro load_cell_same_snapshot) simp
next
  assume "(\<forall>v. fs (snd (run_imports lib v)) p = fs v p)
        \<and> (\<forall>name v. fs (snd (tokenizer_from_pretrained lib name v)) p = fs v p)
        \<and> (\<forall>name v. fs (snd (model_from_pretrained lib name v)) p = fs v p)"
  then show "fs (snd (notebook lib hp w)) p = fs w p"
    by (intro notebook_frame_fs) simp_all
next
  assume "fst (setup_cell lib w) = Inr ()"
    and "fs (snd (setup_cell lib w)) snapshot_path = None"
  then show "notebook lib hp w = (Inl FileNotFoundError, snd (setup_cell lib w))"
    by (rule notebook_missing_snapshot)
qed

theorem filesystem_after_run_witness:
  "snd (load_cell sample_loads (sample_world sample_snapshot)) = sample_world sample_snapshot
   \<and> fst (load_cell sample_loads
        ((sample_world sample_snapshot)
           \<lparr>fs := (fs (sample_world sample_snapshot))(''notes.txt'' := Some [''x''])\<rparr>))
     = fst (load_cell sample_loads (sample_world sample_snapshot))
   \<and> fs (snd (notebook hub_library constants (sample_world sample_snapshot))) snapshot_path
     = Some sample_snapshot
   \<and> fs (snd (notebook sample_library constants (sample_world sample_snapshot)))
     = fs (sample_world sample_snapshot)
   \<and> notebook sample_library constants ((sample_world sample_snapshot)\<lparr>fs := Map.empty\<rparr>)
     = (Inl FileNotFoundError,
        snd (setup_cell sample_library ((sample_world sample_snapshot)\<lparr>fs := Map.empty\<rparr>)))
   \<and> fs (snd (setup_cell sample_library ((sample_world sample_snapshot)\<lparr>fs := Map.empty\<rparr>)))
        snapshot_path = None"
proof -
  let ?w = "sample_world sample_snapshot"
  let ?e = "?w\<lparr>fs := Map.empty\<rparr>"
  have n: "''notes.txt'' \<noteq> snapshot_path"
    by (simp add: snapshot_path_def)
  have c: "hub_cache name \<noteq> snapshot_path" for name
    by (simp add: hub_cache_def snapshot_path_def)
  have hub: "(\<forall>v. fs (snd (run_imports hub_library v)) snapshot_path = fs v snapshot_path)
      \<and> (\<forall>name v. fs (snd (tokenizer_from_pretrained hub_library name v)) snapshot_path
            = fs v snapshot_path)
      \<and> (\<forall>name v. fs (snd (model_from_pretrained hub_library name v)) snapshot_path
            = fs v snapshot_path)"
    using c c [symmetric]
    by (simp add: hub_library_fields sample_imports_eq hub_tokenizer_def hub_model_def
        split: option.splits)
  have plain: "(\<forall>v. fs (snd (run_imports sample_library v)) p = fs v p)
      \<and> (\<forall>name v. fs (snd (tokenizer_from_pretrained sample_library name v)) p = fs v p)
      \<and> (\<forall>name v. fs (snd (model_from_pretrained sample_library name v)) p = fs v p)" for p
    by (simp add: sample_library_fields sample_imports_eq)
  have s: "setup_cell sample_library ?e
      = (Inr (), process_settings (?e\<lparr>env := (env ?e)(''TF2_BEHAVIOR'' \<mapsto> ''1'')\<rparr>))"
    by (simp add: setup_cell_def sample_library_fields sample_imports_eq)
  have 1: "snd (load_cell sample_loads ?w) = ?w"
    and 2: "fst (load_cell sample_loads (?w\<lparr>fs := (fs ?w)(''notes.txt'' := Some [''x''])\<rparr>))
      = fst (load_cell sample_loads ?w)"
    using filesystem_after_run [where loads = sample_loads and w = ?w and path = "''notes.txt''"
        and content = "Some [''x'']"] n
    by blast+
  have 3: "fs (snd (notebook hub_library constants ?w)) snapshot_path = Some sample_snapshot"
    using filesystem_after_run [where lib = hub_library and hp = constants and w = ?w
        and p = snapshot_path] hub
    by (simp add: fs_sample_world)
  have "fs (snd (notebook sample_library constants ?w)) p = fs ?w p" for p
    using filesystem_after_run [where lib = sample_library and hp = constants and w = ?w
        and p = p] plain [of p]
    by blast
  then have 4: "fs (snd (notebook sample_library constants ?w)) = fs ?w"
    by (rule ext)
  have 6: "fs (snd (setup_cell sample_library ?e)) snapshot_path = None"
    by (simp add: s fs_process_settings)
  have 5: "notebook sample_library constants ?e
      = (Inl FileNotFoundError, snd (setup_cell sample_library ?e))"
    using filesystem_after_run [where lib = sample_library and hp = constants and w = ?e] 6
    by (simp add: s)
  from 1 2 3 4 5 6 show ?thesis
    by blast
qed

subsection \<open>The tokenizer's parallelism switch (C7)\<close>

text \<open>
  C7 says that no operation of the notebook controls parallelism. The variable
  \<^verbatim>\<open>TOKENIZERS_PARALLELISM\<close> is the switch by which the tokenizer library turns its
  multi-threading on or off, and the first cell assigns it: a run started with the
  switch on completes with the switch off, and so does its first cell.
\<close>

theorem parallelism_switch_counterexample:
  "env ((sample_world sample_snapshot)\<lparr>env := [''TOKENIZERS_PARALLELISM'' \<mapsto> ''true'']\<rparr>)
       ''TOKENIZERS_PARALLELISM'' = Some ''true''
   \<and> fst (setup_cell sample_library
            ((sample_world sample_snapshot)\<lparr>env := [''TOKENIZERS_PARALLELISM'' \<mapsto> ''true'']\<rparr>))
     = Inr ()
   \<and> env (snd (setup_cell sample_library
                 ((sample_world sample_snapshot)
                    \<lparr>env := [''TOKENIZERS_PARALLELISM'' \<mapsto> ''true'']\<rparr>)))
       ''TOKENIZERS_PARALLELISM'' = Some ''false''
   \<and> (\<exists>s. fst (notebook sample_library constants
                  ((sample_world sample_snapshot)
                     \<lparr>env := [''TOKENIZERS_PARALLELISM'' \<mapsto> ''true'']\<rparr>)) = Inr s)
   \<and> env (snd (notebook sample_library constants
                 ((sample_world sample_snapshot)
                    \<lparr>env := [''TOKENIZERS_PARALLELISM'' \<mapsto> ''true'']\<rparr>)))
       ''TOKENIZERS_PARALLELISM'' = Some ''false''"
proof -
  let ?w = "(sample_world sample_snapshot)\<lparr>env := [''TOKENIZERS_PARALLELISM'' \<mapsto> ''true'']\<rparr>"
  have "fs ?w snapshot_path = Some sample_snapshot"
    by (simp add: fs_sample_world)
  from sample_run_world [OF this] obtain s
    where "notebook sample_library constants ?w
         = (Inr s, process_settings (?w\<lparr>env := (env ?w)(''TF2_BEHAVIOR'' \<mapsto> ''1'')\<rparr>))"
    by auto
  then show ?thesis
    by (simp add: setup_cell_def sample_library_fields sample_imports_eq env_process_settings)
qed

text \<open>
  C7, amended. The notebook does control the multi-threading of the tokenizer. When the
  first cell completes, it has changed the world the imports left in two places, the
  level of the logger and the variable \<^verbatim>\<open>TOKENIZERS_PARALLELISM\<close>, which is
  \<^verbatim>\<open>false\<close> whatever it was before; when an import raises, the cell ends there and
  has assigned nothing. No later statement of the notebook assigns the variable: when
  the two \<^verbatim>\<open>from_pretrained\<close> calls leave it alone and the first cell has completed, it
  is \<^verbatim>\<open>false\<close> at the end of the run. Prefetching and workers are left to the
  framework: in a run that completes, \<^verbatim>\<open>fit\<close> trains on the training dataset,
  validates on the test dataset and its callback reads the generation dataset; the
  three were requested with the batch size of the constants and with no prefetch and no
  worker argument, and \<^verbatim>\<open>fit\<close> with no \<^verbatim>\<open>workers\<close> and no \<^verbatim>\<open>use_multiprocessing\<close>
  argument.
\<close>

theorem parallelism_settings:
  "(fst (setup_cell lib w) = Inr () \<longrightarrow>
      snd (setup_cell lib w)
        = (snd (run_imports lib w))
            \<lparr>tf_log_level := 40,
             env := (env (snd (run_imports lib w)))(''TOKENIZERS_PARALLELISM'' \<mapsto> ''false'')\<rparr>
      \<and> env (snd (setup_cell lib w)) ''TOKENIZERS_PARALLELISM'' = Some ''false'')
   \<and> (fst (run_imports lib w) = Inl e \<longrightarrow> setup_cell lib w = (Inl e, snd (run_imports lib w)))
   \<and> ((\<forall>name v. env (snd (tokenizer_from_pretrained lib name v)) ''TOKENIZERS_PARALLELISM''
                   = env v ''TOKENIZERS_PARALLELISM'')
        \<and> (\<forall>name v. env (snd (model_from_pretrained lib name v)) ''TOKENIZERS_PARALLELISM''
                   = env v ''TOKENIZERS_PARALLELISM'')
        \<and> fst (setup_cell lib w) = Inr ()
        \<longrightarrow> env (snd (notebook lib hp w)) ''TOKENIZERS_PARALLELISM'' = Some ''false'')
   \<and> (fst (notebook lib hp w) = Inr s \<longrightarrow>
        fit_data (nb_fit s) = nb_train_dataset s
        \<and> validation_data (nb_fit s) = nb_test_dataset s
        \<and> (\<exists>cb. callbacks (nb_fit s) = [cb] \<and> eval_dataset cb = nb_generation_dataset s)
        \<and> list_all (\<lambda>d. prefetch d = None \<and> num_workers d = None
                          \<and> batch_size d = BATCH_SIZE hp)
            [nb_train_dataset s, nb_test_dataset s, nb_generation_dataset s]
        \<and> workers (nb_fit s) = None
        \<and> use_multiprocessing (nb_fit s) = None)"
proof (intro conjI impI)
  assume a: "fst (setup_cell lib w) = Inr ()"
  from setup_cell_Inr(2) [OF a]
  show "snd (setup_cell lib w)
        = (snd (run_imports lib w))
            \<lparr>tf_log_level := 40,
             env := (env (snd (run_imports lib w)))(''TOKENIZERS_PARALLELISM'' \<mapsto> ''false'')\<rparr>"
    by (simp add: process_settings_def)
  from setup_cell_Inr(2) [OF a]
  show "env (snd (setup_cell lib w)) ''TOKENIZERS_PARALLELISM'' = Some ''false''"
    by (simp add: env_process_settings)
next
  assume "fst (run_imports lib w) = Inl e"
  then show "setup_cell lib w = (Inl e, snd (run_imports lib w))"
    by (cases "run_imports lib w") (simp add: setup_cell_def)
next
  assume a: "(\<forall>name v. env (snd (tokenizer_from_pretrained lib name v)) ''TOKENIZERS_PARALLELISM''
                   = env v ''TOKENIZERS_PARALLELISM'')
        \<and> (\<forall>name v. env (snd (model_from_pretrained lib name v)) ''TOKENIZERS_PARALLELISM''
                   = env v ''TOKENIZERS_PARALLELISM'')
        \<and> fst (setup_cell lib w) = Inr ()"
  then have "env (snd (notebook lib hp w)) ''TOKENIZERS_PARALLELISM''
      = env (snd (setup_cell lib w)) ''TOKENIZERS_PARALLELISM''"
    by (intro notebook_switch) simp_all
  also from a have "\<dots> = Some ''false''"
    by (simp add: setup_cell_Inr(2) env_process_settings)
  finally show "env (snd (notebook lib hp w)) ''TOKENIZERS_PARALLELISM'' = Some ''false''" .
next
  assume a: "fst (notebook lib hp w) = Inr s"
  note r = notebook_requests [OF a]
  show "fit_data (nb_fit s) = nb_train_dataset s" by (rule r)
  show "validation_data (nb_fit s) = nb_test_dataset s" by (rule r)
  show "\<exists>cb. callbacks (nb_fit s) = [cb] \<and> eval_dataset cb = nb_generation_dataset s"
    by (rule r)
  show "list_all (\<lambda>d. prefetch d = None \<and> num_workers d = None
                          \<and> batch_size d = BATCH_SIZE hp)
            [nb_train_dataset s, nb_test_dataset s, nb_generation_dataset s]"
    by (rule r)
  show "workers (nb_fit s) = None" by (rule r)
  show "use_multiprocessing (nb_fit s) = None" by (rule r)
qed

theorem parallelism_settings_witness:
  "snd (setup_cell sample_library (sample_world sample_snapshot))
     = \<lparr>fs = [snapshot_path \<mapsto> sample_snapshot],
        env = [''TF2_BEHAVIOR'' \<mapsto> ''1'', ''TOKENIZERS_PARALLELISM'' \<mapsto> ''false''],
        tf_log_level = 40\<rparr>
   \<and> setup_cell (sample_library\<lparr>run_imports := (\<lambda>v. (Inl ImportError, v))\<rparr>)
        (sample_world sample_snapshot)
     = (Inl ImportError, sample_world sample_snapshot)
   \<and> env (snd (notebook hub_library constants (sample_world sample_snapshot)))
       ''TOKENIZERS_PARALLELISM'' = Some ''false''
   \<and> (\<exists>s. fst (notebook sample_library constants (sample_world sample_snapshot)) = Inr s
         \<and> fit_data (nb_fit s) = nb_train_dataset s
         \<and> prefetch (nb_train_dataset s) = None
         \<and> num_workers (nb_train_dataset s) = None
         \<and> batch_size (nb_train_dataset s) = 8
         \<and> workers (nb_fit s) = None
         \<and> use_multiprocessing (nb_fit s) = None)"
proof -
  let ?w = "sample_world sample_snapshot"
  let ?bad = "sample_library\<lparr>run_imports := (\<lambda>v. (Inl ImportError, v))\<rparr>"
  have su: "fst (setup_cell sample_library ?w) = Inr ()"
    by (simp add: setup_cell_def sample_library_fields sample_imports_eq)
  have hsu: "fst (setup_cell hub_library ?w) = Inr ()"
    by (simp add: setup_cell_def hub_library_fields sample_imports_eq)
  have hub: "(\<forall>name v. env (snd (tokenizer_from_pretrained hub_library name v))
                 ''TOKENIZERS_PARALLELISM'' = env v ''TOKENIZERS_PARALLELISM'')
      \<and> (\<forall>name v. env (snd (model_from_pretrained hub_library name v))
                 ''TOKENIZERS_PARALLELISM'' = env v ''TOKENIZERS_PARALLELISM'')"
    by (simp add: hub_library_fields hub_tokenizer_def hub_model_def split: option.splits)
  have 1: "snd (setup_cell sample_library ?w)
     = \<lparr>fs = [snapshot_path \<mapsto> sample_snapshot],
        env = [''TF2_BEHAVIOR'' \<mapsto> ''1'', ''TOKENIZERS_PARALLELISM'' \<mapsto> ''false''],
        tf_log_level = 40\<rparr>"
    using parallelism_settings [where lib = sample_library and w = ?w] su
    by (simp add: sample_library_fields sample_imports_eq sample_world_def)
  have 2: "setup_cell ?bad ?w = (Inl ImportError, ?w)"
    using parallelism_settings [where lib = ?bad and w = ?w and e = ImportError]
    by simp
  have 3: "env (snd (notebook hub_library constants ?w)) ''TOKENIZERS_PARALLELISM''
      = Some ''false''"
    using parallelism_settings [where lib = hub_library and w = ?w and hp = constants] hub hsu
    by blast
  from sample_run obtain s
    where s: "fst (notebook sample_library constants ?w) = Inr s" ..
  from parallelism_settings [where lib = sample_library and w = ?w and hp = constants
      and s = s] s
  have "fit_data (nb_fit s) = nb_train_dataset s
         \<and> prefetch (nb_train_dataset s) = None
         \<and> num_workers (nb_train_dataset s) = None
         \<and> batch_size (nb_train_dataset s) = 8
         \<and> workers (nb_fit s) = None
         \<and> use_multiprocessing (nb_fit s) = None"
    by (simp add: constants_def)
  with 1 2 3 s show ?thesis
    by blast
qed

subsection \<open>The two constants nothing reads (C8)\<close>

text \<open>
  C8. Changing \<^verbatim>\<open>MAX_EPOCHS\<close> and \<^verbatim>\<open>LEARNING_RATE\<close> to any other values changes nothing
  in a run, neither its result nor the world it leaves. In every run that completes,
  \<^verbatim>\<open>model.fit\<close> is asked for 3 epochs and the model it trains was compiled with the
  optimizer given as the string \<^verbatim>\<open>adam\<close>.
\<close>

theorem unused_constants:
  "notebook lib (hp\<lparr>MAX_EPOCHS := e, LEARNING_RATE := r\<rparr>) w = notebook lib hp w
   \<and> (fst (notebook lib hp w) = Inr s \<longrightarrow>
        epochs (nb_fit s) = 3 \<and> optimizer (fit_model (nb_fit s)) = Some ''adam'')"
proof -
  let ?hp = "hp\<lparr>MAX_EPOCHS := e, LEARNING_RATE := r\<rparr>"
  have p: "prefix ?hp = prefix hp"
    by (simp add: prefix_def)
  have pre: "preprocess_function ?hp = preprocess_function hp"
    by (intro ext) (simp add: preprocess_function_def p Let_def cong: sum.case_cong if_cong)
  have tok: "tokenize_cell ?hp = tokenize_cell hp"
    by (intro ext) (simp add: tokenize_cell_def pre cong: sum.case_cong if_cong)
  have b: "build_cell lib ?hp = build_cell lib hp"
    by (intro ext) (simp add: build_cell_def cong: sum.case_cong if_cong)
  have tf: "to_tf_dataset ?hp = to_tf_dataset hp"
    by (intro ext) (simp add: to_tf_dataset_def data_collator_def)
  have g: "generation_dataset lib ?hp = generation_dataset lib hp"
    by (intro ext) (simp add: generation_dataset_def tf cong: sum.case_cong if_cong)
  have later: "later_cells lib ?hp = later_cells lib hp"
    by (intro ext)
       (simp add: later_cells_def tok b tf g Let_def
          cong: sum.case_cong prod.case_cong if_cong)
  have 1: "notebook lib ?hp w = notebook lib hp w"
    by (simp add: notebook_def later cong: prod.case_cong sum.case_cong)
  have 2: "epochs (nb_fit s) = 3 \<and> optimizer (fit_model (nb_fit s)) = Some ''adam''"
    if "fst (notebook lib hp w) = Inr s"
  proof -
    from that obtain w1 df
      where "later_cells lib hp df (process_settings w1) = (Inr s, snd (notebook lib hp w))"
      by (rule notebook_Inr)
    from later_cells_Inr(2,10) [OF this] show ?thesis
      by (auto simp: compile_def)
  qed
  from 1 2 show ?thesis
    by blast
qed

theorem unused_constants_witness:
  "notebook sample_library (constants\<lparr>MAX_EPOCHS := 10, LEARNING_RATE := 1\<rparr>)
       (sample_world sample_snapshot)
     = notebook sample_library constants (sample_world sample_snapshot)
   \<and> (\<exists>s. fst (notebook sample_library constants (sample_world sample_snapshot)) = Inr s
          \<and> epochs (nb_fit s) = 3 \<and> optimizer (fit_model (nb_fit s)) = Some ''adam'')"
proof -
  from sample_run obtain s
    where s: "fst (notebook sample_library constants (sample_world sample_snapshot)) = Inr s" ..
  from unused_constants [where lib = sample_library and hp = constants and e = 10 and r = 1
      and w = "sample_world sample_snapshot" and s = s] s
  show ?thesis by blast
qed

subsection \<open>The token ids given to batch_decode (C9)\<close>

text \<open>
  C9 says that \<^verbatim>\<open>batch_decode\<close> is never given an id outside the vocabulary. The labels
  are not clipped: with the vocabulary size 32100 and the pad id 0 of the \<^verbatim>\<open>t5-small\<close>
  tokenizer, the label id 32100 is in the array given to \<^verbatim>\<open>batch_decode\<close>.
\<close>

theorem label_out_of_vocabulary_counterexample:
  "masked_labels sample_tokenizer (NdArray [[32100, - 100]]) = [[32100, 0]]
   \<and> vocab_size sample_tokenizer = 32100
   \<and> \<not> list_all (list_all (\<lambda>v. 0 \<le> v \<and> v \<le> vocab_size sample_tokenizer - 1))
         (masked_labels sample_tokenizer (NdArray [[32100, - 100]]))"
  by (simp add: masked_labels_def sample_tokenizer_fields)

text \<open>
  C9, amended. The array of predictions given to \<^verbatim>\<open>batch_decode\<close> is the array of the
  predicted ids, each taken as an int64 and then clipped: an id that an int64 holds
  becomes 0 when it is negative, \<open>vocab_size - 1\<close> when it is \<open>vocab_size\<close> or more, and
  stays as it is otherwise; with a non-empty vocabulary every id given lies in
  \<open>[0, vocab_size - 1]\<close>. The array of labels given to \<^verbatim>\<open>batch_decode\<close> is the array of
  the label ids with each negative id replaced by the pad id and every other id as it
  is, also an id of \<open>vocab_size\<close> or more: an array without negative ids is given
  unchanged, and with a non-negative pad id no id given is negative. \<^verbatim>\<open>metric_fn\<close>
  raises what either \<^verbatim>\<open>batch_decode\<close> call raises and otherwise returns the score of
  the ROUGE-L object after the call on the decoded labels and predictions. It returns a
  score on every pair of arrays whose label ids are below \<open>vocab_size\<close>, for a tokenizer
  with a non-empty vocabulary and a pad id in it whose \<^verbatim>\<open>batch_decode\<close> accepts every
  array of ids of the vocabulary.
\<close>

theorem metric_fn_token_ids:
  "clipped_preds tok preds =
     map (map (\<lambda>v. min (vocab_size tok - 1) (max (sint (word_of_int v :: 64 word)) 0)))
       (numpy preds)
   \<and> (0 < vocab_size tok \<longrightarrow>
        list_all (list_all (\<lambda>v. - (2 ^ 63) \<le> v \<and> v < 2 ^ 63)) (numpy preds) \<longrightarrow>
        clipped_preds tok preds =
          map (map (\<lambda>v. if v < 0 then 0
                         else if vocab_size tok \<le> v then vocab_size tok - 1 else v))
            (numpy preds))
   \<and> (0 < vocab_size tok \<longrightarrow>
        list_all (list_all (\<lambda>v. 0 \<le> v \<and> v \<le> vocab_size tok - 1)) (clipped_preds tok preds))
   \<and> masked_labels tok labs =
       map (map (\<lambda>v. if v < 0 then pad_token_id tok else v)) (numpy labs)
   \<and> (list_all (list_all (\<lambda>v. 0 \<le> v)) (numpy labs) \<longrightarrow> masked_labels tok labs = numpy labs)
   \<and> (0 \<le> pad_token_id tok \<longrightarrow>
        list_all (list_all (\<lambda>v. 0 \<le> v)) (masked_labels tok labs))
   \<and> metric_fn lib tok seen (preds, labs) =
       (case batch_decode tok True
               (map (map (\<lambda>v. min (vocab_size tok - 1)
                                (max (sint (word_of_int v :: 64 word)) 0)))
                  (numpy preds)) of
          Inl e \<Rightarrow> Inl e
        | Inr decoded_preds \<Rightarrow>
            (case batch_decode tok True
                    (map (map (\<lambda>v. if v < 0 then pad_token_id tok else v)) (numpy labs)) of
               Inl e \<Rightarrow> Inl e
             | Inr decoded_labels \<Rightarrow>
                 Inr ([(''RougeL'',
                        f1_score (rouge_l lib (seen @ [(decoded_labels, decoded_preds)])))],
                      seen @ [(decoded_labels, decoded_preds)])))
   \<and> (0 < vocab_size tok \<and> 0 \<le> pad_token_id tok \<and> pad_token_id tok < vocab_size tok
        \<and> (\<forall>idss. list_all (list_all (\<lambda>v. 0 \<le> v \<and> v \<le> vocab_size tok - 1)) idss
               \<longrightarrow> (\<exists>texts. batch_decode tok True idss = Inr texts))
        \<and> list_all (list_all (\<lambda>v. v < vocab_size tok)) (numpy labs)
       \<longrightarrow> (\<exists>score seen'. metric_fn lib tok seen (preds, labs)
                            = Inr ([(''RougeL'', score)], seen')))"
proof (intro conjI impI)
  show "clipped_preds tok preds =
     map (map (\<lambda>v. min (vocab_size tok - 1) (max (sint (word_of_int v :: 64 word)) 0)))
       (numpy preds)"
    by (rule clipped_preds_eq)
next
  assume "0 < vocab_size tok"
    and "list_all (list_all (\<lambda>v. - (2 ^ 63) \<le> v \<and> v < 2 ^ 63)) (numpy preds)"
  then show "clipped_preds tok preds =
          map (map (\<lambda>v. if v < 0 then 0
                         else if vocab_size tok \<le> v then vocab_size tok - 1 else v))
            (numpy preds)"
    by (rule clipped_preds_int64)
next
  assume "0 < vocab_size tok"
  then show "list_all (list_all (\<lambda>v. 0 \<le> v \<and> v \<le> vocab_size tok - 1))
      (clipped_preds tok preds)"
    by (rule clipped_preds_range)
next
  show "masked_labels tok labs =
       map (map (\<lambda>v. if v < 0 then pad_token_id tok else v)) (numpy labs)"
    by (simp add: masked_labels_def)
next
  assume "list_all (list_all (\<lambda>v. 0 \<le> v)) (numpy labs)"
  then show "masked_labels tok labs = numpy labs"
    by (rule masked_labels_id)
next
  assume "0 \<le> pad_token_id tok"
  then show "list_all (list_all (\<lambda>v. 0 \<le> v)) (masked_labels tok labs)"
    by (rule masked_labels_nonneg)
next
  show "metric_fn lib tok seen (preds, labs) =
       (case batch_decode tok True
               (map (map (\<lambda>v. min (vocab_size tok - 1)
                                (max (sint (word_of_int v :: 64 word)) 0)))
                  (numpy preds)) of
          Inl e \<Rightarrow> Inl e
        | Inr decoded_preds \<Rightarrow>
            (case batch_decode tok True
                    (map (map (\<lambda>v. if v < 0 then pad_token_id tok else v)) (numpy labs)) of
               Inl e \<Rightarrow> Inl e
             | Inr decoded_labels \<Rightarrow>
                 Inr ([(''RougeL'',
                        f1_score (rouge_l lib (seen @ [(decoded_labels, decoded_preds)])))],
                      seen @ [(decoded_labels, decoded_preds)])))"
    by (rule metric_fn_explicit)
next
  assume "0 < vocab_size tok \<and> 0 \<le> pad_token_id tok \<and> pad_token_id tok < vocab_size tok
        \<and> (\<forall>idss. list_all (list_all (\<lambda>v. 0 \<le> v \<and> v \<le> vocab_size tok - 1)) idss
               \<longrightarrow> (\<exists>texts. batch_decode tok True idss = Inr texts))
        \<and> list_all (list_all (\<lambda>v. v < vocab_size tok)) (numpy labs)"
  then show "\<exists>score seen'. metric_fn lib tok seen (preds, labs)
                            = Inr ([(''RougeL'', score)], seen')"
    by (intro metric_fn_total) simp_all
qed

theorem metric_fn_token_ids_witness:
  "clipped_preds sample_tokenizer (Tensor [[- 5, 40000, 17]]) = [[0, 32099, 17]]
   \<and> masked_labels sample_tokenizer (NdArray [[- 100, 12, 32100]]) = [[0, 12, 32100]]
   \<and> masked_labels sample_tokenizer (NdArray [[40000, 12]]) = [[40000, 12]]
   \<and> (\<exists>score seen'. metric_fn sample_library sample_tokenizer []
                        (Tensor [[- 5, 40000, 17]], NdArray [[- 100, 12]])
                      = Inr ([(''RougeL'', score)], seen'))"
proof -
  let ?p = "Tensor [[- 5, 40000, 17]]"
  have v: "(0::int) < vocab_size sample_tokenizer"
    by (simp add: sample_tokenizer_fields)
  have r: "list_all (list_all (\<lambda>v. - (2 ^ 63) \<le> v \<and> v < 2 ^ 63)) (numpy ?p)"
    by simp
  have n: "list_all (list_all (\<lambda>v. 0 \<le> v)) (numpy (NdArray [[40000, 12]]))"
    by simp
  have dec: "0 < vocab_size sample_tokenizer \<and> 0 \<le> pad_token_id sample_tokenizer
      \<and> pad_token_id sample_tokenizer < vocab_size sample_tokenizer
      \<and> (\<forall>idss. list_all (list_all (\<lambda>v. 0 \<le> v \<and> v \<le> vocab_size sample_tokenizer - 1)) idss
             \<longrightarrow> (\<exists>texts. batch_decode sample_tokenizer True idss = Inr texts))
      \<and> list_all (list_all (\<lambda>v. v < vocab_size sample_tokenizer)) (numpy (NdArray [[- 100, 12]]))"
  proof -
    have "\<exists>texts. batch_decode sample_tokenizer True idss = Inr texts"
      if "list_all (list_all (\<lambda>v. 0 \<le> v \<and> v \<le> vocab_size sample_tokenizer - 1)) idss"
      for idss
    proof -
      from that have "list_all (list_all (\<lambda>v. 0 \<le> v \<and> v < 32100)) idss"
        by (fastforce simp: list_all_iff sample_tokenizer_fields)
      then show ?thesis
        by (simp add: sample_tokenizer_fields sample_decode_def)
    qed
    then show ?thesis
      by (simp add: sample_tokenizer_fields)
  qed
  have 1: "clipped_preds sample_tokenizer ?p = [[0, 32099, 17]]"
    using metric_fn_token_ids [where tok = sample_tokenizer and preds = ?p] v r
    by (simp add: sample_tokenizer_fields)
  have 2: "masked_labels sample_tokenizer (NdArray [[- 100, 12, 32100]]) = [[0, 12, 32100]]"
    using metric_fn_token_ids [where tok = sample_tokenizer
        and labs = "NdArray [[- 100, 12, 32100]]"]
    by (simp add: sample_tokenizer_fields)
  have 3: "masked_labels sample_tokenizer (NdArray [[40000, 12]]) = [[40000, 12]]"
    using metric_fn_token_ids [where tok = sample_tokenizer and labs = "NdArray [[40000, 12]]"] n
    by simp
  have 4: "\<exists>score seen'. metric_fn sample_library sample_tokenizer []
                        (Tensor [[- 5, 40000, 17]], NdArray [[- 100, 12]])
                      = Inr ([(''RougeL'', score)], seen')"
    using metric_fn_token_ids [where tok = sample_tokenizer and lib = sample_library
        and seen = "[]" and preds = ?p and labs = "NdArray [[- 100, 12]]"] dec
    by blast
  from 1 2 3 4 show ?thesis
    by blast
qed

subsection \<open>How many records are loaded (C10)\<close>

text \<open>
  C10 ends: a file with blank or incomplete lines yields strictly fewer than 200,000
  records. A blank line behind the first 200,000 lines takes nothing from the budget:
  the snapshot of 200,000 full records followed by one blank line gives a frame of
  200,000 rows.
\<close>

theorem blank_after_budget_counterexample:
  "list_ex (\<lambda>l. strip l = []) (replicate 200000 line_full @ [line_blank])
   \<and> map_sum id len_df
        (fst (load_cell sample_loads (sample_world (replicate 200000 line_full @ [line_blank]))))
      = Inr 200000"
proof -
  have "list_ex (\<lambda>l. strip l = []) (replicate 200000 line_full @ [line_blank])"
    by (simp add: strip_samples)
  moreover have "map_sum id len_df
        (fst (load_cell sample_loads (sample_world (replicate N line_full @ [line_blank]))))
      = Inr N"
    by (simp add: load_replicate_full len_df_def frame_of_def)
  ultimately show ?thesis by (simp add: N_def)
qed

text \<open>
  C10, amended. When the loading cell completes, the number of rows is the number of
  lines among the first 200,000 that are not blank and decode to a complete record. It
  is at most the number of non-blank lines among the first 200,000 lines, hence at most
  200,000; it is strictly below 200,000 when one of the first 200,000 lines is blank or
  decodes to an incomplete record; and it is 200,000 exactly when the file has at least
  200,000 lines and none of the first 200,000 is blank or incomplete.
\<close>

theorem loaded_records_bound:
  assumes "fs w snapshot_path = Some ls" and "fst (load_cell loads w) = Inr df"
  shows "len_df df
       = length (filter (\<lambda>l. strip l \<noteq> [] \<and> \<not> incomplete_line loads l) (take 200000 ls))
     \<and> len_df df \<le> min 200000 (length (filter (\<lambda>l. strip l \<noteq> []) (take 200000 ls)))
     \<and> (list_ex (\<lambda>l. strip l = [] \<or> incomplete_line loads l) (take 200000 ls)
          \<longrightarrow> len_df df < 200000)
     \<and> (len_df df = 200000 \<longleftrightarrow>
          200000 \<le> length ls
          \<and> list_all (\<lambda>l. strip l \<noteq> [] \<and> \<not> incomplete_line loads l) (take 200000 ls))"
proof -
  let ?P = "\<lambda>l. strip l \<noteq> [] \<and> \<not> incomplete_line loads l"
  let ?xs = "take 200000 ls"
  have len: "len_df df = length (filter ?P ?xs)"
    using load_cell_count [OF assms] by (simp add: N_def)
  have "filter ?P ?xs = filter (\<lambda>l. \<not> incomplete_line loads l) (filter (\<lambda>l. strip l \<noteq> []) ?xs)"
    by simp
  then have le1: "length (filter ?P ?xs) \<le> length (filter (\<lambda>l. strip l \<noteq> []) ?xs)"
    by (simp only: length_filter_le)
  have le2: "length (filter (\<lambda>l. strip l \<noteq> []) ?xs) \<le> length ?xs"
    by (rule length_filter_le)
  have le3: "length ?xs \<le> 200000"
    by simp
  have full: "length (filter ?P ?xs) = length ?xs \<longleftrightarrow> list_all ?P ?xs"
    by (rule length_filter_full)
  have lt: "list_ex (\<lambda>l. strip l = [] \<or> incomplete_line loads l) ?xs \<longrightarrow> len_df df < 200000"
  proof
    assume "list_ex (\<lambda>l. strip l = [] \<or> incomplete_line loads l) ?xs"
    then have "\<not> list_all ?P ?xs"
      by (auto simp: list_ex_iff list_all_iff)
    with full have "length (filter ?P ?xs) \<noteq> length ?xs"
      by simp
    moreover have "length (filter ?P ?xs) \<le> length ?xs"
      by (rule length_filter_le)
    ultimately show "len_df df < 200000"
      using le3 len by linarith
  qed
  have iff: "len_df df = 200000 \<longleftrightarrow> 200000 \<le> length ls \<and> list_all ?P ?xs"
  proof
    assume "len_df df = 200000"
    with len le1 le2 le3 have "length (filter ?P ?xs) = length ?xs" and "length ?xs = 200000"
      by linarith+
    with full show "200000 \<le> length ls \<and> list_all ?P ?xs"
      by simp
  next
    assume a: "200000 \<le> length ls \<and> list_all ?P ?xs"
    then have "length ?xs = 200000"
      by simp
    with a full len show "len_df df = 200000"
      by simp
  qed
  have b: "len_df df \<le> min 200000 (length (filter (\<lambda>l. strip l \<noteq> []) ?xs))"
    using len le1 le2 le3 by simp
  from len b lt iff show ?thesis
    by blast
qed

theorem loaded_records_bound_witness:
  "fst (load_cell sample_loads
          (sample_world (replicate 199999 line_full @ [line_blank, line_full])))
     = Inr (frame_of (replicate 199999 record_full))
   \<and> length (replicate 199999 line_full @ [line_blank, line_full]) = 200001
   \<and> list_ex (\<lambda>l. strip l = [])
        (take 200000 (replicate 199999 line_full @ [line_blank, line_full]))
   \<and> len_df (frame_of (replicate 199999 record_full))
       = length (filter (\<lambda>l. strip l \<noteq> [] \<and> \<not> incomplete_line sample_loads l)
                   (take 200000 (replicate 199999 line_full @ [line_blank, line_full])))
   \<and> len_df (frame_of (replicate 199999 record_full)) < 200000
   \<and> fst (load_cell sample_loads (sample_world (replicate 200000 line_full @ [line_blank])))
     = Inr (frame_of (replicate 200000 record_full))
   \<and> len_df (frame_of (replicate 200000 record_full)) = 200000"
proof -
  let ?a = "replicate 199999 line_full @ [line_blank, line_full]"
  let ?b = "replicate 200000 line_full @ [line_blank]"
  have ex: "list_ex (\<lambda>l. strip l = []) (take 200000 ?a)"
    by (simp add: strip_samples)
  then have ex': "list_ex (\<lambda>l. strip l = [] \<or> incomplete_line sample_loads l) (take 200000 ?a)"
    by (auto simp: list_ex_iff)
  have lb: "fst (load_cell sample_loads (sample_world ?b))
      = Inr (frame_of (replicate 200000 record_full))"
    using load_replicate_full [of "[line_blank]"] by (simp add: N_def)
  have all: "200000 \<le> length ?b
      \<and> list_all (\<lambda>l. strip l \<noteq> [] \<and> \<not> incomplete_line sample_loads l) (take 200000 ?b)"
    by (simp add: list_all_iff strip_samples incomplete_line_samples)
  note a = loaded_records_bound [OF fs_sample_world load_blank_inside]
  note b = loaded_records_bound [OF fs_sample_world lb]
  from a have 1: "len_df (frame_of (replicate 199999 record_full))
       = length (filter (\<lambda>l. strip l \<noteq> [] \<and> \<not> incomplete_line sample_loads l) (take 200000 ?a))"
    by (elim conjE)
  from a ex' have 2: "len_df (frame_of (replicate 199999 record_full)) < 200000"
    by (elim conjE) blast
  from b all have 3: "len_df (frame_of (replicate 200000 record_full)) = 200000"
    by (elim conjE) blast
  have 4: "length ?a = 200001"
    by simp
  from load_blank_inside 4 ex 1 2 lb 3 show ?thesis
    by blast
qed

end
